theory Spec2Isabelle
  imports Main "HOL-Library.Word"
begin

section \<open>Data model of main.go\<close>

text \<open>
  The wire schema (main.go, lines 13 to 35). Go's \<open>int32\<close> is a 32-bit word read as a
  signed number, \<open>string\<close> and \<open>[]byte\<close> are byte lists.
\<close>

type_synonym bytes = "8 word list"

record Stat =
  Name :: string
  URL :: string

record StatInfo =
  Stat :: Stat
  BaseStat :: "32 word"

record Sprites =
  FrontDefault :: string
  BackDefault :: string

record Pokemon =
  Name :: string
  BaseExp :: "32 word"
  Height :: "32 word"
  Id :: "32 word"
  Sprites :: Sprites
  StatInfo :: "StatInfo list"

text \<open>
  The text of an error that a library call (net/http, io, encoding/json, os) returns.
\<close>

type_synonym liberr = string

text \<open>
  The errors the program builds with \<open>fmt.Errorf\<close>, one constructor for each format
  string of the source, carrying the value that is formatted into it.
\<close>

datatype error =
    HTTPRequestError liberr
  | UnexpectedStatusCode int
  | ErrorReadingResponseBody liberr
  | ErrorParsingJSON liberr
  | ErrorDownloadingSprite liberr
  | ErrorReadingSpriteData liberr
  | ErrorCreatingFile liberr
  | ErrorSavingSprite liberr

subsection \<open>The outside world\<close>

text \<open>
  What one HTTP GET gives back: the call fails, or a response arrives with a status code
  and a body whose reading (\<open>io.ReadAll\<close>) fails or yields all bytes. The call is taken
  to return.
\<close>

datatype read_result = ReadFailed liberr | ReadOK bytes

datatype http_result = GetFailed liberr | Response int read_result

definition StatusOK :: int where
  "StatusOK = 200"

text \<open>
  The environment of one run. \<open>httpGet n u\<close> is what the GET of URL \<open>u\<close> returns when
  \<open>n\<close> requests were issued before it; \<open>unmarshal b\<close> is the outcome of
  \<open>json.Unmarshal(b, &data)\<close> on a zero \<open>data\<close> (the error, or the filled struct);
  \<open>filepathJoin\<close> is \<open>filepath.Join\<close>; \<open>osCreate p\<close> is the error of \<open>os.Create(p)\<close>, if
  any; \<open>fileWrite p d\<close> is the failure of \<open>file.Write(d)\<close>, if any, with the number of
  bytes that reached the file before it.
\<close>

record env =
  httpGet :: "nat \<Rightarrow> string \<Rightarrow> http_result"
  unmarshal :: "bytes \<Rightarrow> liberr + Pokemon"
  filepathJoin :: "string \<Rightarrow> string \<Rightarrow> string"
  osCreate :: "string \<Rightarrow> liberr option"
  fileWrite :: "string \<Rightarrow> bytes \<Rightarrow> (nat \<times> liberr) option"

text \<open>What \<open>fmt.Println\<close> is given after its label.\<close>

datatype printed =
    PString string
  | PInt32 "32 word"
  | PSprites Sprites
  | PStats "StatInfo list"
  | PError "error option"

text \<open>
  The calls that leave the process, in the order they are made: a GET of a URL, a
  \<open>fmt.Println\<close> of a label and a value, an \<open>os.Create\<close> of a path, a \<open>Write\<close> of data
  to the file created at a path.
\<close>

datatype event =
    HttpGet string
  | Println string printed
  | OsCreate string
  | FileWrite string bytes

record world =
  trace :: "event list"
  files :: "string \<rightharpoonup> bytes"
  requests :: nat

definition emit :: "event \<Rightarrow> world \<Rightarrow> world" where
  "emit e w = w\<lparr>trace := trace w @ [e]\<rparr>"

definition http_Get :: "env \<Rightarrow> string \<Rightarrow> world \<Rightarrow> http_result \<times> world" where
  "http_Get en u w =
     (httpGet en (requests w) u, (emit (HttpGet u) w)\<lparr>requests := Suc (requests w)\<rparr>)"

text \<open>
  \<open>os.Create\<close> creates the file or truncates it to length 0; when it fails the file
  system is as before.
\<close>

definition os_Create :: "env \<Rightarrow> string \<Rightarrow> world \<Rightarrow> liberr option \<times> world" where
  "os_Create en p w =
     (case osCreate en p of
        Some err \<Rightarrow> (Some err, emit (OsCreate p) w)
      | None \<Rightarrow> (None, (emit (OsCreate p) w)\<lparr>files := (files w)(p \<mapsto> [])\<rparr>))"

text \<open>
  \<open>file.Write\<close> appends the data to the file; when it fails after \<open>n\<close> bytes, those
  bytes are in the file.
\<close>

definition contents :: "world \<Rightarrow> string \<Rightarrow> bytes" where
  "contents w p = (case files w p of None \<Rightarrow> [] | Some old \<Rightarrow> old)"

definition file_Write :: "env \<Rightarrow> string \<Rightarrow> bytes \<Rightarrow> world \<Rightarrow> liberr option \<times> world" where
  "file_Write en p d w =
     (case fileWrite en p d of
        Some (n, err) \<Rightarrow>
          (Some err, (emit (FileWrite p d) w)\<lparr>files := (files w)(p \<mapsto> contents w p @ take n d)\<rparr>)
      | None \<Rightarrow>
          (None, (emit (FileWrite p d) w)\<lparr>files := (files w)(p \<mapsto> contents w p @ d)\<rparr>))"

text \<open>A send on one of the two channels of \<open>main\<close>.\<close>

datatype send = ResultSend bytes | ErrorSend error

section \<open>fetchData\<close>

text \<open>
  \<open>fetchData\<close> (lines 37 to 60): the list of channel sends the call performs before it
  returns, in order, and the world after it.
\<close>

definition fetchData :: "env \<Rightarrow> string \<Rightarrow> world \<Rightarrow> send list \<times> world" where
  "fetchData en u w =
     (case http_Get en u w of
        (GetFailed err, w') \<Rightarrow> ([ErrorSend (HTTPRequestError err)], w')
      | (Response code body, w') \<Rightarrow>
          if code \<noteq> StatusOK then ([ErrorSend (UnexpectedStatusCode code)], w')
          else (case body of
                  ReadFailed err \<Rightarrow> ([ErrorSend (ErrorReadingResponseBody err)], w')
                | ReadOK b \<Rightarrow> ([ResultSend b], w')))"

section \<open>parseJSON, downloadSprite, saveSprite\<close>

text \<open>\<open>parseJSON\<close> (lines 62 to 70).\<close>

definition parseJSON :: "env \<Rightarrow> bytes \<Rightarrow> error + Pokemon" where
  "parseJSON en body =
     (case unmarshal en body of
        Inl err \<Rightarrow> Inl (ErrorParsingJSON err)
      | Inr data \<Rightarrow> Inr data)"

text \<open>\<open>downloadSprite\<close> (lines 72 to 89).\<close>

definition downloadSprite :: "env \<Rightarrow> string \<Rightarrow> world \<Rightarrow> (error + bytes) \<times> world" where
  "downloadSprite en u w =
     (case http_Get en u w of
        (GetFailed err, w') \<Rightarrow> (Inl (ErrorDownloadingSprite err), w')
      | (Response code body, w') \<Rightarrow>
          if code \<noteq> StatusOK then (Inl (UnexpectedStatusCode code), w')
          else (case body of
                  ReadFailed err \<Rightarrow> (Inl (ErrorReadingSpriteData err), w')
                | ReadOK spriteData \<Rightarrow> (Inr spriteData, w')))"

text \<open>
  \<open>saveSprite\<close> (lines 91 to 104); \<open>None\<close> is the \<open>nil\<close> error. The deferred \<open>Close\<close>
  has its error dropped by the source.
\<close>

definition saveSprite :: "env \<Rightarrow> bytes \<Rightarrow> string \<Rightarrow> world \<Rightarrow> error option \<times> world" where
  "saveSprite en d filename w =
     (case os_Create en filename w of
        (Some err, w1) \<Rightarrow> (Some (ErrorCreatingFile err), w1)
      | (None, w1) \<Rightarrow>
          (case file_Write en filename d w1 of
             (Some err, w2) \<Rightarrow> (Some (ErrorSavingSprite err), w2)
           | (None, w2) \<Rightarrow> (None, w2)))"

section \<open>main\<close>

definition url :: string where
  "url = ''https://pokeapi-proxy.freecodecamp.rocks/api/pokemon/1/''"

text \<open>Lines 131 to 136.\<close>

definition print_fields :: "Pokemon \<Rightarrow> world \<Rightarrow> world" where
  "print_fields pokemon w =
     (let w1 = emit (Println ''Pokemon Name:'' (PString (Pokemon.Name pokemon))) w;
          w2 = emit (Println ''Pokemon BaseExp:'' (PInt32 (BaseExp pokemon))) w1;
          w3 = emit (Println ''Pokemon Height:'' (PInt32 (Height pokemon))) w2;
          w4 = emit (Println ''Pokemon Id:'' (PInt32 (Id pokemon))) w3;
          w5 = emit (Println ''Pokemon Sprites:'' (PSprites (Sprites pokemon))) w4
      in emit (Println ''Pokemon Abilities:'' (PStats (StatInfo pokemon))) w5)"

text \<open>Lines 139 to 152.\<close>

definition frontFilename :: "env \<Rightarrow> Pokemon \<Rightarrow> string" where
  "frontFilename en pokemon = filepathJoin en ''.'' (Pokemon.Name pokemon @ ''_front.png'')"

definition front_sprite :: "env \<Rightarrow> Pokemon \<Rightarrow> world \<Rightarrow> world" where
  "front_sprite en pokemon w =
     (if FrontDefault (Sprites pokemon) \<noteq> [] then
        (case downloadSprite en (FrontDefault (Sprites pokemon)) w of
           (Inl err, w1) \<Rightarrow>
             emit (Println ''Error downloading front sprite:'' (PError (Some err))) w1
         | (Inr spriteData, w1) \<Rightarrow>
             (case saveSprite en spriteData (frontFilename en pokemon) w1 of
                (Some err, w2) \<Rightarrow>
                  emit (Println ''Error saving front sprite:'' (PError (Some err))) w2
              | (None, w2) \<Rightarrow>
                  emit (Println ''Front sprite saved as:'' (PString (frontFilename en pokemon))) w2))
      else w)"

text \<open>Lines 154 to 167.\<close>

definition backFilename :: "env \<Rightarrow> Pokemon \<Rightarrow> string" where
  "backFilename en pokemon = filepathJoin en ''.'' (Pokemon.Name pokemon @ ''_back.png'')"

definition back_sprite :: "env \<Rightarrow> Pokemon \<Rightarrow> world \<Rightarrow> world" where
  "back_sprite en pokemon w =
     (if BackDefault (Sprites pokemon) \<noteq> [] then
        (case downloadSprite en (BackDefault (Sprites pokemon)) w of
           (Inl err, w1) \<Rightarrow>
             emit (Println ''Error downloading back sprite:'' (PError (Some err))) w1
         | (Inr spriteData, w1) \<Rightarrow>
             (case saveSprite en spriteData (backFilename en pokemon) w1 of
                (Some err, w2) \<Rightarrow>
                  emit (Println ''Error saving back sprite:'' (PError (Some err))) w2
              | (None, w2) \<Rightarrow>
                  emit (Println ''Back sprite saved as:'' (PString (backFilename en pokemon))) w2))
      else w)"

text \<open>
  What the \<open>select\<close> of line 122 receives: an error from \<open>errorChan\<close> (\<open>None\<close> is the
  \<open>nil\<close> that a closed channel yields) or a body from \<open>resultChan\<close> (empty from a closed
  channel).
\<close>

datatype recv = RecvError "error option" | RecvResult bytes

fun recv_of :: "send \<Rightarrow> recv" where
  "recv_of (ErrorSend err) = RecvError (Some err)"
| "recv_of (ResultSend body) = RecvResult body"

text \<open>The two cases of the \<open>select\<close> (lines 122 to 168).\<close>

definition select_body :: "env \<Rightarrow> recv \<Rightarrow> world \<Rightarrow> world" where
  "select_body en m w =
     (case m of
        RecvError err \<Rightarrow> emit (Println ''Error:'' (PError err)) w
      | RecvResult body \<Rightarrow>
          (case parseJSON en body of
             Inl err \<Rightarrow> emit (Println ''Error:'' (PError (Some err))) w
           | Inr pokemon \<Rightarrow>
               back_sprite en pokemon (front_sprite en pokemon (print_fields pokemon w))))"

text \<open>
  \<open>main\<close> (lines 106 to 169) on a file system \<open>fs\<close>: the goroutine runs \<open>fetchData\<close>, and
  the \<open>select\<close> receives what it sends first. Had the goroutine sent nothing, the
  channels would be closed under the \<open>select\<close> and the scheduler would choose what it
  receives: the result is \<open>None\<close> there.
\<close>

definition start :: "(string \<rightharpoonup> bytes) \<Rightarrow> world" where
  "start fs = \<lparr>trace = [], files = fs, requests = 0\<rparr>"

definition main :: "env \<Rightarrow> (string \<rightharpoonup> bytes) \<Rightarrow> world option" where
  "main en fs =
     (case fetchData en url (start fs) of
        ([], w) \<Rightarrow> None
      | (s # rest, w) \<Rightarrow> Some (select_body en (recv_of s) w))"

section \<open>Reading a run\<close>

text \<open>The URLs of the GETs of a trace, the paths of its file operations, its console lines.\<close>

fun get_urls :: "event list \<Rightarrow> string list" where
  "get_urls [] = []"
| "get_urls (HttpGet u # es) = u # get_urls es"
| "get_urls (e # es) = get_urls es"

fun file_paths :: "event list \<Rightarrow> string list" where
  "file_paths [] = []"
| "file_paths (OsCreate p # es) = p # file_paths es"
| "file_paths (FileWrite p d # es) = p # file_paths es"
| "file_paths (e # es) = file_paths es"

fun printlns :: "event list \<Rightarrow> (string \<times> printed) list" where
  "printlns [] = []"
| "printlns (Println l v # es) = (l, v) # printlns es"
| "printlns (e # es) = printlns es"

text \<open>The events between an earlier world and a later one.\<close>

definition since :: "world \<Rightarrow> world \<Rightarrow> event list" where
  "since w w' = drop (length (trace w)) (trace w')"

text \<open>
  The worlds of a run that decodes \<open>pokemon\<close>: after \<open>fetchData\<close>, after the six field
  lines, after the front sprite block, after the back sprite block.
\<close>

definition after_fetch :: "env \<Rightarrow> (string \<rightharpoonup> bytes) \<Rightarrow> world" where
  "after_fetch en fs = snd (fetchData en url (start fs))"

definition after_print :: "env \<Rightarrow> (string \<rightharpoonup> bytes) \<Rightarrow> Pokemon \<Rightarrow> world" where
  "after_print en fs pokemon = print_fields pokemon (after_fetch en fs)"

definition after_front :: "env \<Rightarrow> (string \<rightharpoonup> bytes) \<Rightarrow> Pokemon \<Rightarrow> world" where
  "after_front en fs pokemon = front_sprite en pokemon (after_print en fs pokemon)"

definition after_back :: "env \<Rightarrow> (string \<rightharpoonup> bytes) \<Rightarrow> Pokemon \<Rightarrow> world" where
  "after_back en fs pokemon = back_sprite en pokemon (after_front en fs pokemon)"

definition front_events :: "env \<Rightarrow> (string \<rightharpoonup> bytes) \<Rightarrow> Pokemon \<Rightarrow> event list" where
  "front_events en fs pokemon = since (after_print en fs pokemon) (after_front en fs pokemon)"

definition back_events :: "env \<Rightarrow> (string \<rightharpoonup> bytes) \<Rightarrow> Pokemon \<Rightarrow> event list" where
  "back_events en fs pokemon = since (after_front en fs pokemon) (after_back en fs pokemon)"

section \<open>The goroutines of main\<close>

text \<open>
  Lines 109 to 123 start two goroutines and then wait in the \<open>select\<close>. The first runs
  \<open>fetchData\<close> on the world as it is: the call does what \<open>fetchData\<close> does up to its
  sends, then performs the sends one by one, then returns, which runs the deferred
  \<open>wg.Done()\<close>. A send on an unbuffered channel happens together with the receive that
  takes it; a send on a closed channel panics. The second goroutine waits for the
  counter of the wait group to be zero, then closes \<open>resultChan\<close>, then \<open>errorChan\<close>. The
  caller stays in the \<open>select\<close> until one of its two receives can happen: with a sender,
  or on a closed channel, which yields the zero value. It then runs the case of the
  \<open>select\<close> on the world as it is and returns, which ends the program.
\<close>

datatype fetcher = FStart | FSending "send list" | FExit | FPanic

datatype closer = CWait | CCloseResult | CCloseError | CExit

datatype caller = MSelect | MReceived recv | MExit

record conf =
  fetcher :: fetcher
  closer :: closer
  caller :: caller
  wg :: int
  resultClosed :: bool
  errorClosed :: bool
  outside :: world

text \<open>The state when the caller reaches the \<open>select\<close>, after \<open>wg.Add(1)\<close> and the two \<open>go\<close>.\<close>

definition init :: "(string \<rightharpoonup> bytes) \<Rightarrow> conf" where
  "init fs = \<lparr>fetcher = FStart, closer = CWait, caller = MSelect, wg = 1,
              resultClosed = False, errorClosed = False, outside = start fs\<rparr>"

text \<open>The steps the first goroutine can take (line 114 and \<open>fetchData\<close>).\<close>

definition fetcher_steps :: "env \<Rightarrow> conf \<Rightarrow> conf list" where
  "fetcher_steps en c =
     (case fetcher c of
        FStart \<Rightarrow>
          (case fetchData en url (outside c) of
             (sends, w) \<Rightarrow> [c\<lparr>fetcher := FSending sends, outside := w\<rparr>])
      | FSending [] \<Rightarrow> [c\<lparr>fetcher := FExit, wg := wg c - 1\<rparr>]
      | FSending (ResultSend body # rest) \<Rightarrow>
          if resultClosed c then [c\<lparr>fetcher := FPanic\<rparr>]
          else if caller c = MSelect
            then [c\<lparr>fetcher := FSending rest, caller := MReceived (RecvResult body)\<rparr>]
            else []
      | FSending (ErrorSend err # rest) \<Rightarrow>
          if errorClosed c then [c\<lparr>fetcher := FPanic\<rparr>]
          else if caller c = MSelect
            then [c\<lparr>fetcher := FSending rest, caller := MReceived (RecvError (Some err))\<rparr>]
            else []
      | FExit \<Rightarrow> []
      | FPanic \<Rightarrow> [])"

text \<open>The steps of the second goroutine (lines 116 to 120).\<close>

definition closer_steps :: "conf \<Rightarrow> conf list" where
  "closer_steps c =
     (case closer c of
        CWait \<Rightarrow> if wg c = 0 then [c\<lparr>closer := CCloseResult\<rparr>] else []
      | CCloseResult \<Rightarrow> [c\<lparr>closer := CCloseError, resultClosed := True\<rparr>]
      | CCloseError \<Rightarrow> [c\<lparr>closer := CExit, errorClosed := True\<rparr>]
      | CExit \<Rightarrow> [])"

text \<open>
  The steps of the caller alone (lines 122 to 169): a receive of the \<open>select\<close> that needs
  no sender, and the case of the \<open>select\<close> for what was received.
\<close>

definition caller_steps :: "env \<Rightarrow> conf \<Rightarrow> conf list" where
  "caller_steps en c =
     (case caller c of
        MSelect \<Rightarrow>
          (if errorClosed c then [c\<lparr>caller := MReceived (RecvError None)\<rparr>] else []) @
          (if resultClosed c then [c\<lparr>caller := MReceived (RecvResult [])\<rparr>] else [])
      | MReceived m \<Rightarrow> [c\<lparr>caller := MExit, outside := select_body en m (outside c)\<rparr>]
      | MExit \<Rightarrow> [])"

text \<open>Every step some goroutine can take; none once \<open>main\<close> has returned.\<close>

definition steps :: "env \<Rightarrow> conf \<Rightarrow> conf list" where
  "steps en c =
     (if caller c = MExit then []
      else fetcher_steps en c @ closer_steps c @ caller_steps en c)"

text \<open>The states that some schedule reaches in exactly \<open>n\<close> steps.\<close>

fun after_steps :: "env \<Rightarrow> (string \<rightharpoonup> bytes) \<Rightarrow> nat \<Rightarrow> conf list" where
  "after_steps en fs 0 = [init fs]"
| "after_steps en fs (Suc n) = concat (map (steps en) (after_steps en fs n))"

section \<open>json.Unmarshal into a Pokemon\<close>

text \<open>A JSON value; a number keeps its literal, an object the order of its members.\<close>

datatype json =
    JNull
  | JBool bool
  | JNumber string
  | JString string
  | JArray "json list"
  | JObject "(string \<times> json) list"

text \<open>
  What is left to the library: \<open>scan\<close> checks the text and gives its value or the syntax
  error; \<open>foldName\<close> folds the case of a key; \<open>typeError v\<close> is the text of the error for
  a value \<open>v\<close> that does not fit its target.
\<close>

record jsonlib =
  scan :: "bytes \<Rightarrow> liberr + json"
  foldName :: "string \<Rightarrow> string"
  typeError :: "json \<Rightarrow> liberr"

text \<open>The keys of the struct tags, struct by struct and in the order of the fields (lines 13 to 35).\<close>

definition Stat_tags :: "string list" where
  "Stat_tags = [''name'', ''url'']"

definition StatInfo_tags :: "string list" where
  "StatInfo_tags = [''stat'', ''base_stat'']"

definition Sprites_tags :: "string list" where
  "Sprites_tags = [''front_default'', ''back_default'']"

definition Pokemon_tags :: "string list" where
  "Pokemon_tags = [''name'', ''base_experience'', ''height'', ''id'', ''sprites'', ''stats'']"

text \<open>The zero values of the structs; \<open>zero_Pokemon\<close> is \<open>var data Pokemon\<close> (line 63).\<close>

definition zero_Stat :: Stat where
  "zero_Stat = \<lparr>Stat.Name = [], URL = []\<rparr>"

definition zero_StatInfo :: StatInfo where
  "zero_StatInfo = \<lparr>Stat = zero_Stat, BaseStat = 0\<rparr>"

definition zero_Sprites :: Sprites where
  "zero_Sprites = \<lparr>FrontDefault = [], BackDefault = []\<rparr>"

definition zero_Pokemon :: Pokemon where
  "zero_Pokemon =
     \<lparr>Pokemon.Name = [], BaseExp = 0, Height = 0, Id = 0,
      Sprites = zero_Sprites, StatInfo = []\<rparr>"

text \<open>
  Modelled from the spec: the matching of keys inside \<open>json.Unmarshal\<close>, which is not part
  of this repository. The field a key names is the one tagged with it, else the first
  whose tag is the same after case folding.
\<close>

definition field_of :: "jsonlib \<Rightarrow> string list \<Rightarrow> string \<Rightarrow> string option" where
  "field_of lib tags key =
     (if key \<in> set tags then Some key
      else find (\<lambda>t. foldName lib t = foldName lib key) tags)"

text \<open>
  Modelled from the spec: the value of a run of decimal digits, as \<open>strconv.ParseInt\<close>
  reads it inside \<open>json.Unmarshal\<close>, which is not part of this repository; \<open>None\<close> when a
  character is no digit.
\<close>

fun decimal :: "nat \<Rightarrow> string \<Rightarrow> nat option" where
  "decimal acc [] = Some acc"
| "decimal acc (c # cs) =
     (if 48 \<le> (of_char c :: nat) \<and> (of_char c :: nat) \<le> 57
      then decimal (10 * acc + ((of_char c :: nat) - 48)) cs
      else None)"

text \<open>
  Modelled from the spec: the reading of a number literal as a base 10 integer inside
  \<open>json.Unmarshal\<close> (\<open>strconv.ParseInt\<close>), which is not part of this repository. The
  literal is an optional minus sign and digits; a literal with a fraction or an exponent
  is no integer.
\<close>

definition int_of_literal :: "string \<Rightarrow> int option" where
  "int_of_literal lit =
     (case lit of
        [] \<Rightarrow> None
      | c # cs \<Rightarrow>
          if c = CHR ''-''
          then (if cs = [] then None else map_option (\<lambda>n. - int n) (decimal 0 cs))
          else map_option int (decimal 0 lit))"

text \<open>
  Modelled from the spec: the decoding of one JSON value into a \<open>string\<close> inside
  \<open>json.Unmarshal\<close>, which is not part of this repository. A string is stored, \<open>null\<close>
  leaves the target as it is, everything else is a type error.
\<close>

definition decode_string :: "jsonlib \<Rightarrow> json \<Rightarrow> string \<Rightarrow> liberr + string" where
  "decode_string lib v old =
     (case v of
        JString s \<Rightarrow> Inr s
      | JNull \<Rightarrow> Inr old
      | _ \<Rightarrow> Inl (typeError lib v))"

text \<open>
  Modelled from the spec: the decoding of one JSON value into an \<open>int32\<close> inside
  \<open>json.Unmarshal\<close>, which is not part of this repository. An integer literal that fits
  into 32 bits is stored, \<open>null\<close> leaves the target as it is, everything else is a type
  error.
\<close>

definition decode_int32 :: "jsonlib \<Rightarrow> json \<Rightarrow> 32 word \<Rightarrow> liberr + 32 word" where
  "decode_int32 lib v old =
     (case v of
        JNumber lit \<Rightarrow>
          (case int_of_literal lit of
             None \<Rightarrow> Inl (typeError lib v)
           | Some n \<Rightarrow>
               if - (2 ^ 31) \<le> n \<and> n < 2 ^ 31 then Inr (word_of_int n)
               else Inl (typeError lib v))
      | JNull \<Rightarrow> Inr old
      | _ \<Rightarrow> Inl (typeError lib v))"

text \<open>
  Modelled from the spec: the decoding of the members of an object into a struct inside
  \<open>json.Unmarshal\<close>, which is not part of this repository. The members are taken in
  order: a member whose key names no field is skipped, any other is stored into the
  field it names, on top of what the field holds. \<open>json.Unmarshal\<close> goes on after a type
  error and reports the first one in the end; \<open>parseJSON\<close> then drops the struct, so the
  model stops at the first error.
\<close>

fun members ::
  "(string \<Rightarrow> string option) \<Rightarrow> (string \<Rightarrow> json \<Rightarrow> 'a \<Rightarrow> liberr + 'a)
     \<Rightarrow> (string \<times> json) list \<Rightarrow> 'a \<Rightarrow> liberr + 'a"
where
  "members fld st [] x = Inr x"
| "members fld st ((key, v) # kvs) x =
     (case fld key of
        None \<Rightarrow> members fld st kvs x
      | Some t \<Rightarrow>
          (case st t v x of
             Inl err \<Rightarrow> Inl err
           | Inr x' \<Rightarrow> members fld st kvs x'))"

text \<open>
  Modelled from the spec: the decoding of one JSON value into a struct inside
  \<open>json.Unmarshal\<close>, which is not part of this repository. An object stores its members,
  \<open>null\<close> leaves the struct as it is, everything else is a type error.
\<close>

definition decode_struct ::
  "jsonlib \<Rightarrow> string list \<Rightarrow> (string \<Rightarrow> json \<Rightarrow> 'a \<Rightarrow> liberr + 'a) \<Rightarrow> json \<Rightarrow> 'a \<Rightarrow> liberr + 'a"
where
  "decode_struct lib tags st v x =
     (case v of
        JObject kvs \<Rightarrow> members (field_of lib tags) st kvs x
      | JNull \<Rightarrow> Inr x
      | _ \<Rightarrow> Inl (typeError lib v))"

text \<open>
  Modelled from the spec: the fields of \<open>Stat\<close> by their tags (lines 13 to 16), as
  \<open>json.Unmarshal\<close>, which is not part of this repository, reads them from the struct
  tags.
\<close>

definition store_Stat :: "jsonlib \<Rightarrow> string \<Rightarrow> json \<Rightarrow> Stat \<Rightarrow> liberr + Stat" where
  "store_Stat lib t v s =
     (if t = ''name'' then
        (case decode_string lib v (Stat.Name s) of
           Inl err \<Rightarrow> Inl err | Inr a \<Rightarrow> Inr (s\<lparr>Stat.Name := a\<rparr>))
      else if t = ''url'' then
        (case decode_string lib v (URL s) of
           Inl err \<Rightarrow> Inl err | Inr a \<Rightarrow> Inr (s\<lparr>URL := a\<rparr>))
      else Inr s)"

text \<open>
  Modelled from the spec: \<open>json.Unmarshal\<close>, which is not part of this repository, on a
  target of type \<open>Stat\<close>.
\<close>

definition decode_Stat :: "jsonlib \<Rightarrow> json \<Rightarrow> Stat \<Rightarrow> liberr + Stat" where
  "decode_Stat lib = decode_struct lib Stat_tags (store_Stat lib)"

text \<open>
  Modelled from the spec: the fields of \<open>StatInfo\<close> by their tags (lines 18 to 21), as
  \<open>json.Unmarshal\<close>, which is not part of this repository, reads them from the struct
  tags.
\<close>

definition store_StatInfo :: "jsonlib \<Rightarrow> string \<Rightarrow> json \<Rightarrow> StatInfo \<Rightarrow> liberr + StatInfo" where
  "store_StatInfo lib t v s =
     (if t = ''stat'' then
        (case decode_Stat lib v (Stat s) of
           Inl err \<Rightarrow> Inl err | Inr a \<Rightarrow> Inr (s\<lparr>Stat := a\<rparr>))
      else if t = ''base_stat'' then
        (case decode_int32 lib v (BaseStat s) of
           Inl err \<Rightarrow> Inl err | Inr a \<Rightarrow> Inr (s\<lparr>BaseStat := a\<rparr>))
      else Inr s)"

text \<open>
  Modelled from the spec: \<open>json.Unmarshal\<close>, which is not part of this repository, on a
  target of type \<open>StatInfo\<close>.
\<close>

definition decode_StatInfo :: "jsonlib \<Rightarrow> json \<Rightarrow> StatInfo \<Rightarrow> liberr + StatInfo" where
  "decode_StatInfo lib = decode_struct lib StatInfo_tags (store_StatInfo lib)"

text \<open>
  Modelled from the spec: the fields of \<open>Sprites\<close> by their tags (lines 23 to 26), as
  \<open>json.Unmarshal\<close>, which is not part of this repository, reads them from the struct
  tags.
\<close>

definition store_Sprites :: "jsonlib \<Rightarrow> string \<Rightarrow> json \<Rightarrow> Sprites \<Rightarrow> liberr + Sprites" where
  "store_Sprites lib t v s =
     (if t = ''front_default'' then
        (case decode_string lib v (FrontDefault s) of
           Inl err \<Rightarrow> Inl err | Inr a \<Rightarrow> Inr (s\<lparr>FrontDefault := a\<rparr>))
      else if t = ''back_default'' then
        (case decode_string lib v (BackDefault s) of
           Inl err \<Rightarrow> Inl err | Inr a \<Rightarrow> Inr (s\<lparr>BackDefault := a\<rparr>))
      else Inr s)"

text \<open>
  Modelled from the spec: \<open>json.Unmarshal\<close>, which is not part of this repository, on a
  target of type \<open>Sprites\<close>.
\<close>

definition decode_Sprites :: "jsonlib \<Rightarrow> json \<Rightarrow> Sprites \<Rightarrow> liberr + Sprites" where
  "decode_Sprites lib = decode_struct lib Sprites_tags (store_Sprites lib)"

text \<open>
  Modelled from the spec: the decoding of the elements of a JSON array into the array of
  a slice of \<open>StatInfo\<close> inside \<open>json.Unmarshal\<close>, which is not part of this repository.
  Element \<open>i\<close> of the JSON array is decoded on top of what the array holds at \<open>i\<close>, or
  on top of a zero element where the array ends.
\<close>

fun elements :: "jsonlib \<Rightarrow> json list \<Rightarrow> StatInfo list \<Rightarrow> liberr + StatInfo list" where
  "elements lib [] held = Inr []"
| "elements lib (e # es) held =
     (case decode_StatInfo lib e (case held of [] \<Rightarrow> zero_StatInfo | h # hs \<Rightarrow> h) of
        Inl err \<Rightarrow> Inl err
      | Inr x \<Rightarrow>
          (case elements lib es (tl held) of
             Inl err \<Rightarrow> Inl err
           | Inr xs \<Rightarrow> Inr (x # xs)))"

text \<open>
  Modelled from the spec: the decoding of one JSON value into the slice \<open>[]StatInfo\<close>
  inside \<open>json.Unmarshal\<close>, which is not part of this repository. The slice comes with
  the elements that its array still holds behind its end. A JSON array is decoded
  element by element into that array and the slice is cut to the length of the JSON
  array; an empty JSON array and \<open>null\<close> give an empty slice with a new array; any other
  value is a type error.
\<close>

definition decode_StatInfos ::
  "jsonlib \<Rightarrow> json \<Rightarrow> StatInfo list \<times> StatInfo list \<Rightarrow> liberr + StatInfo list \<times> StatInfo list"
where
  "decode_StatInfos lib v sl =
     (case v of
        JArray es \<Rightarrow>
          if es = [] then Inr ([], [])
          else (case elements lib es (fst sl @ snd sl) of
                  Inl err \<Rightarrow> Inl err
                | Inr xs \<Rightarrow> Inr (xs, drop (length es) (fst sl @ snd sl)))
      | JNull \<Rightarrow> Inr ([], [])
      | _ \<Rightarrow> Inl (typeError lib v))"

text \<open>
  Modelled from the spec: the fields of \<open>Pokemon\<close> by their tags (lines 28 to 35), as
  \<open>json.Unmarshal\<close> reads them from the struct tags. The struct comes with the elements
  that the array of its \<open>StatInfo\<close> slice holds behind the end of the slice.
\<close>

definition store_Pokemon ::
  "jsonlib \<Rightarrow> string \<Rightarrow> json \<Rightarrow> Pokemon \<times> StatInfo list \<Rightarrow> liberr + Pokemon \<times> StatInfo list"
where
  "store_Pokemon lib t v ps =
     (if t = ''name'' then
        (case decode_string lib v (Pokemon.Name (fst ps)) of
           Inl err \<Rightarrow> Inl err | Inr a \<Rightarrow> Inr ((fst ps)\<lparr>Pokemon.Name := a\<rparr>, snd ps))
      else if t = ''base_experience'' then
        (case decode_int32 lib v (BaseExp (fst ps)) of
           Inl err \<Rightarrow> Inl err | Inr a \<Rightarrow> Inr ((fst ps)\<lparr>BaseExp := a\<rparr>, snd ps))
      else if t = ''height'' then
        (case decode_int32 lib v (Height (fst ps)) of
           Inl err \<Rightarrow> Inl err | Inr a \<Rightarrow> Inr ((fst ps)\<lparr>Height := a\<rparr>, snd ps))
      else if t = ''id'' then
        (case decode_int32 lib v (Id (fst ps)) of
           Inl err \<Rightarrow> Inl err | Inr a \<Rightarrow> Inr ((fst ps)\<lparr>Id := a\<rparr>, snd ps))
      else if t = ''sprites'' then
        (case decode_Sprites lib v (Sprites (fst ps)) of
           Inl err \<Rightarrow> Inl err | Inr a \<Rightarrow> Inr ((fst ps)\<lparr>Sprites := a\<rparr>, snd ps))
      else if t = ''stats'' then
        (case decode_StatInfos lib v (StatInfo (fst ps), snd ps) of
           Inl err \<Rightarrow> Inl err | Inr a \<Rightarrow> Inr ((fst ps)\<lparr>StatInfo := fst a\<rparr>, snd a))
      else Inr ps)"

text \<open>
  Modelled from the spec: \<open>json.Unmarshal\<close> belongs to Go's package encoding/json, which
  is not part of this repository. The spec has the body of a known JSON shape decoded into
  the fixed schema; the model follows the documentation of the package for a struct
  target. A text that is not well formed is an error and nothing is stored; otherwise
  the value is decoded into the zero struct of line 63.
\<close>

definition json_Unmarshal :: "jsonlib \<Rightarrow> bytes \<Rightarrow> liberr + Pokemon" where
  "json_Unmarshal lib body =
     (case scan lib body of
        Inl err \<Rightarrow> Inl err
      | Inr v \<Rightarrow>
          (case decode_struct lib Pokemon_tags (store_Pokemon lib) v (zero_Pokemon, []) of
             Inl err \<Rightarrow> Inl err
           | Inr ps \<Rightarrow> Inr (fst ps)))"

text \<open>The values of the members of an object whose keys name the field tagged \<open>t\<close>.\<close>

definition named :: "jsonlib \<Rightarrow> string list \<Rightarrow> string \<Rightarrow> (string \<times> json) list \<Rightarrow> json list" where
  "named lib tags t kvs = map snd (filter (\<lambda>kv. field_of lib tags (fst kv) = Some t) kvs)"

section \<open>Example environments\<close>

definition bulbasaur :: Pokemon where
  "bulbasaur =
     \<lparr>Pokemon.Name = ''bulbasaur'', BaseExp = 64, Height = 7, Id = 1,
      Sprites = \<lparr>FrontDefault = ''https://img.example/1.png'',
                 BackDefault = ''https://img.example/back/1.png''\<rparr>,
      StatInfo = [\<lparr>Stat = \<lparr>Stat.Name = ''hp'', URL = ''https://pokeapi.co/api/v2/stat/1/''\<rparr>,
                   BaseStat = 45\<rparr>]\<rparr>"

definition png :: bytes where
  "png = [137, 80, 78, 71]"

definition page :: bytes where
  "page = [123, 125]"

fun get_ok :: "nat \<Rightarrow> string \<Rightarrow> http_result" where
  "get_ok n u = (if u = url then Response 200 (ReadOK page) else Response 200 (ReadOK png))"

fun get_down :: "nat \<Rightarrow> string \<Rightarrow> http_result" where
  "get_down n u = GetFailed ''dial tcp: no route to host''"

fun get_sprites_missing :: "nat \<Rightarrow> string \<Rightarrow> http_result" where
  "get_sprites_missing n u =
     (if n = 0 then Response 200 (ReadOK page) else Response 404 (ReadOK []))"

fun get_front_down :: "nat \<Rightarrow> string \<Rightarrow> http_result" where
  "get_front_down n u =
     (if n = 0 then Response 200 (ReadOK page)
      else if n = 1 then GetFailed ''connection reset by peer''
      else Response 200 (ReadOK png))"

fun unmarshal_ok :: "bytes \<Rightarrow> liberr + Pokemon" where
  "unmarshal_ok b = Inr bulbasaur"

fun unmarshal_bad :: "bytes \<Rightarrow> liberr + Pokemon" where
  "unmarshal_bad b = Inl ''unexpected end of JSON input''"

fun join_cwd :: "string \<Rightarrow> string \<Rightarrow> string" where
  "join_cwd dir f = f"

fun create_ok :: "string \<Rightarrow> liberr option" where
  "create_ok p = None"

fun create_denied :: "string \<Rightarrow> liberr option" where
  "create_denied p = Some ''permission denied''"

fun write_ok :: "string \<Rightarrow> bytes \<Rightarrow> (nat \<times> liberr) option" where
  "write_ok p d = None"

definition env_ok :: env where
  "env_ok = \<lparr>httpGet = get_ok, unmarshal = unmarshal_ok, filepathJoin = join_cwd,
             osCreate = create_ok, fileWrite = write_ok\<rparr>"

definition env_down :: env where
  "env_down = env_ok\<lparr>httpGet := get_down\<rparr>"

definition env_bad_json :: env where
  "env_bad_json = env_ok\<lparr>unmarshal := unmarshal_bad\<rparr>"

definition env_sprites_missing :: env where
  "env_sprites_missing = env_ok\<lparr>httpGet := get_sprites_missing\<rparr>"

definition env_front_down :: env where
  "env_front_down = env_ok\<lparr>httpGet := get_front_down\<rparr>"

definition env_read_only :: env where
  "env_read_only = env_ok\<lparr>osCreate := create_denied\<rparr>"

text \<open>
  Libraries for the examples. Each knows one text and folds nothing: \<open>lib_braces\<close> the
  text \<open>{}\<close>, \<open>lib_other\<close> an object whose keys name no field, \<open>lib_name5\<close> an object
  whose \<open>name\<close> is a number, \<open>lib_wire\<close> an object as the API sends it, with members in
  another order than the fields and with members that name no field.
\<close>

definition bytes_of :: "string \<Rightarrow> bytes" where
  "bytes_of s = map (\<lambda>c. of_nat (of_char c)) s"

fun fold_id :: "string \<Rightarrow> string" where
  "fold_id s = s"

fun type_error :: "json \<Rightarrow> liberr" where
  "type_error v = ''json: cannot unmarshal into Go value''"

fun scan_braces :: "bytes \<Rightarrow> liberr + json" where
  "scan_braces b = (if b = page then Inr (JObject []) else Inl ''invalid character'')"

definition lib_braces :: jsonlib where
  "lib_braces = \<lparr>scan = scan_braces, foldName = fold_id, typeError = type_error\<rparr>"

definition env_braces :: env where
  "env_braces = env_ok\<lparr>unmarshal := json_Unmarshal lib_braces\<rparr>"

definition page_other :: bytes where
  \<open>page_other = bytes_of ''{"order":1,"weight":69}''\<close>

definition other :: "(string \<times> json) list" where
  "other = [(''order'', JNumber ''1''), (''weight'', JNumber ''69'')]"

fun scan_other :: "bytes \<Rightarrow> liberr + json" where
  "scan_other b = (if b = page_other then Inr (JObject other) else Inl ''invalid character'')"

definition lib_other :: jsonlib where
  "lib_other = \<lparr>scan = scan_other, foldName = fold_id, typeError = type_error\<rparr>"

fun get_other :: "nat \<Rightarrow> string \<Rightarrow> http_result" where
  "get_other n u =
     (if n = 0 then Response 200 (ReadOK page_other) else Response 200 (ReadOK png))"

definition env_other :: env where
  "env_other = env_ok\<lparr>httpGet := get_other, unmarshal := json_Unmarshal lib_other\<rparr>"

definition page_name5 :: bytes where
  \<open>page_name5 = bytes_of ''{"name":5}''\<close>

fun scan_name5 :: "bytes \<Rightarrow> liberr + json" where
  "scan_name5 b =
     (if b = page_name5 then Inr (JObject [(''name'', JNumber ''5'')])
      else Inl ''invalid character'')"

definition lib_name5 :: jsonlib where
  "lib_name5 = \<lparr>scan = scan_name5, foldName = fold_id, typeError = type_error\<rparr>"

definition env_name5 :: env where
  "env_name5 = env_ok\<lparr>unmarshal := json_Unmarshal lib_name5\<rparr>"

definition page_wire :: bytes where
  \<open>page_wire = bytes_of
     ''{"base_experience":64,"height":7,"id":1,"name":"bulbasaur","order":1,"sprites":{"back_default":"https://img.example/back/1.png","front_default":"https://img.example/1.png","front_shiny":null},"stats":[{"base_stat":45,"effort":0,"stat":{"name":"hp","url":"https://pokeapi.co/api/v2/stat/1/"}}]}''\<close>

definition wire_stats :: "(string \<times> json) list" where
  "wire_stats =
     [(''base_stat'', JNumber ''45''), (''effort'', JNumber ''0''),
      (''stat'', JObject [(''name'', JString ''hp''),
                          (''url'', JString ''https://pokeapi.co/api/v2/stat/1/'')])]"

definition wire_sprites :: "(string \<times> json) list" where
  "wire_sprites =
     [(''back_default'', JString ''https://img.example/back/1.png''),
      (''front_default'', JString ''https://img.example/1.png''),
      (''front_shiny'', JNull)]"

definition wire :: "(string \<times> json) list" where
  "wire =
     [(''base_experience'', JNumber ''64''), (''height'', JNumber ''7''),
      (''id'', JNumber ''1''), (''name'', JString ''bulbasaur''), (''order'', JNumber ''1''),
      (''sprites'', JObject wire_sprites), (''stats'', JArray [JObject wire_stats])]"

fun scan_wire :: "bytes \<Rightarrow> liberr + json" where
  "scan_wire b = (if b = page_wire then Inr (JObject wire) else Inl ''invalid character'')"

definition lib_wire :: jsonlib where
  "lib_wire = \<lparr>scan = scan_wire, foldName = fold_id, typeError = type_error\<rparr>"

fun get_wire :: "nat \<Rightarrow> string \<Rightarrow> http_result" where
  "get_wire n u =
     (if n = 0 then Response 200 (ReadOK page_wire) else Response 200 (ReadOK png))"

definition env_wire :: env where
  "env_wire = env_ok\<lparr>httpGet := get_wire, unmarshal := json_Unmarshal lib_wire\<rparr>"

section \<open>Properties\<close>

subsection \<open>The world after each primitive\<close>

lemma emit_simps [simp]:
  "trace (emit e w) = trace w @ [e]"
  "files (emit e w) = files w"
  "requests (emit e w) = requests w"
  by (simp_all add: emit_def)

lemma http_Get_simps [simp]:
  "fst (http_Get en u w) = httpGet en (requests w) u"
  "trace (snd (http_Get en u w)) = trace w @ [HttpGet u]"
  "files (snd (http_Get en u w)) = files w"
  "requests (snd (http_Get en u w)) = Suc (requests w)"
  by (simp_all add: http_Get_def)

lemma start_simps [simp]:
  "trace (start fs) = []"
  "files (start fs) = fs"
  "requests (start fs) = 0"
  by (simp_all add: start_def)

lemma fetchData_world: "snd (fetchData en u w) = snd (http_Get en u w)"
  by (simp add: fetchData_def split: prod.splits http_result.splits read_result.splits)

lemma fetchData_sends:
  "fst (fetchData en u w) =
     (case httpGet en (requests w) u of
        GetFailed err \<Rightarrow> [ErrorSend (HTTPRequestError err)]
      | Response code body \<Rightarrow>
          if code \<noteq> 200 then [ErrorSend (UnexpectedStatusCode code)]
          else (case body of
                  ReadFailed err \<Rightarrow> [ErrorSend (ErrorReadingResponseBody err)]
                | ReadOK b \<Rightarrow> [ResultSend b]))"
  by (simp add: fetchData_def http_Get_def StatusOK_def
           split: prod.splits http_result.splits read_result.splits)

lemma after_fetch_simps [simp]:
  "trace (after_fetch en fs) = [HttpGet url]"
  "files (after_fetch en fs) = fs"
  "requests (after_fetch en fs) = Suc 0"
  by (simp_all add: after_fetch_def fetchData_world)

text \<open>\<open>main\<close> always has a result: the \<open>select\<close> receives the one send of \<open>fetchData\<close>.\<close>

lemma main_eq:
  "main en fs = Some (select_body en
      (case httpGet en 0 url of
        GetFailed err \<Rightarrow> RecvError (Some (HTTPRequestError err))
      | Response code body \<Rightarrow>
          if code \<noteq> 200 then RecvError (Some (UnexpectedStatusCode code))
          else (case body of
                  ReadFailed err \<Rightarrow> RecvError (Some (ErrorReadingResponseBody err))
                | ReadOK b \<Rightarrow> RecvResult b)) (after_fetch en fs))"
proof -
  obtain ss w where f: "fetchData en url (start fs) = (ss, w)"
    by (cases "fetchData en url (start fs)")
  have ss: "ss = fst (fetchData en url (start fs))" and w: "w = after_fetch en fs"
    using f by (simp_all add: after_fetch_def)
  show ?thesis
    unfolding main_def f
    by (simp add: ss w [symmetric] fetchData_sends split: http_result.splits read_result.splits)
qed

subsection \<open>fetchData signals once\<close>

text \<open>
  C1. Every call of \<open>fetchData\<close> performs exactly one send. It is the whole body on
  \<open>resultChan\<close> exactly when the GET returned a response with status 200 whose body was
  read; a failed GET, a status other than 200 and a failed read each give one error on
  \<open>errorChan\<close>, built from what failed, and nothing on \<open>resultChan\<close>.
\<close>

theorem fetchData_signals_once:
  "(\<exists>s. fst (fetchData en u w) = [s]) \<and>
   (fst (fetchData en u w) = [ResultSend b]
      \<longleftrightarrow> httpGet en (requests w) u = Response 200 (ReadOK b)) \<and>
   (ResultSend b \<in> set (fst (fetchData en u w))
      \<longleftrightarrow> httpGet en (requests w) u = Response 200 (ReadOK b)) \<and>
   (httpGet en (requests w) u = GetFailed err
      \<longrightarrow> fst (fetchData en u w) = [ErrorSend (HTTPRequestError err)]) \<and>
   (httpGet en (requests w) u = Response code body \<and> code \<noteq> 200
      \<longrightarrow> fst (fetchData en u w) = [ErrorSend (UnexpectedStatusCode code)]) \<and>
   (httpGet en (requests w) u = Response 200 (ReadFailed err)
      \<longrightarrow> fst (fetchData en u w) = [ErrorSend (ErrorReadingResponseBody err)])"
  by (auto simp: fetchData_sends split: http_result.splits read_result.splits)

theorem fetchData_signals_once_witness:
  "fst (fetchData env_ok url (start Map.empty)) = [ResultSend page] \<and>
   httpGet env_ok (requests (start Map.empty)) url = Response 200 (ReadOK page) \<and>
   httpGet env_down (requests (start Map.empty)) url = GetFailed ''dial tcp: no route to host'' \<and>
   fst (fetchData env_down url (start Map.empty))
     = [ErrorSend (HTTPRequestError ''dial tcp: no route to host'')] \<and>
   httpGet env_sprites_missing (Suc 0) ''u'' = Response 404 (ReadOK []) \<and> (404::int) \<noteq> 200 \<and>
   fst (fetchData env_sprites_missing ''u'' ((start Map.empty)\<lparr>requests := Suc 0\<rparr>))
     = [ErrorSend (UnexpectedStatusCode 404)]"
  using fetchData_signals_once [of env_ok url "start Map.empty" page]
    fetchData_signals_once [of env_down url "start Map.empty" _ "''dial tcp: no route to host''"]
    fetchData_signals_once [of env_sprites_missing "''u''"
      "(start Map.empty)\<lparr>requests := Suc 0\<rparr>" _ _ 404 "ReadOK []"]
  by (simp add: env_ok_def env_down_def env_sprites_missing_def)

subsection \<open>Malformed JSON\<close>

text \<open>
  C2. When the fetched body is one on which \<open>parseJSON\<close> returns an error, the whole run
  is the GET of the fixed URL followed by one console line carrying that error: none of
  the six fields is printed, no sprite is requested, and the file system is as it was.
\<close>

theorem main_malformed_json:
  assumes "httpGet en 0 url = Response 200 (ReadOK body)"
    and "parseJSON en body = Inl err"
  shows "main en fs =
           Some \<lparr>trace = [HttpGet url, Println ''Error:'' (PError (Some err))],
                 files = fs, requests = Suc 0\<rparr>"
  using assms by (simp add: main_eq select_body_def emit_def)

theorem main_malformed_json_witness:
  "httpGet env_bad_json 0 url = Response 200 (ReadOK page) \<and>
   parseJSON env_bad_json page = Inl (ErrorParsingJSON ''unexpected end of JSON input'') \<and>
   main env_bad_json Map.empty =
     Some \<lparr>trace = [HttpGet url,
                     Println ''Error:''
                       (PError (Some (ErrorParsingJSON ''unexpected end of JSON input'')))],
           files = Map.empty, requests = Suc 0\<rparr>"
proof -
  have g: "httpGet env_bad_json 0 url = Response 200 (ReadOK page)"
    by (simp add: env_bad_json_def env_ok_def)
  have p: "parseJSON env_bad_json page = Inl (ErrorParsingJSON ''unexpected end of JSON input'')"
    by (simp add: parseJSON_def env_bad_json_def env_ok_def)
  show ?thesis
    using g p main_malformed_json [OF g p, of Map.empty] by simp
qed

subsection \<open>saveSprite\<close>

lemma since_append [simp]: "trace w' = trace w @ es \<Longrightarrow> since w w' = es"
  by (simp add: since_def)

lemma saveSprite_result:
  "fst (saveSprite en d f w) =
     (case osCreate en f of
        Some err \<Rightarrow> Some (ErrorCreatingFile err)
      | None \<Rightarrow> (case fileWrite en f d of
                   Some (n, err) \<Rightarrow> Some (ErrorSavingSprite err)
                 | None \<Rightarrow> None))"
  by (simp add: saveSprite_def os_Create_def file_Write_def split: option.splits prod.splits)

lemma saveSprite_trace:
  "trace (snd (saveSprite en d f w)) =
     trace w @ (case osCreate en f of
                  Some err \<Rightarrow> [OsCreate f]
                | None \<Rightarrow> [OsCreate f, FileWrite f d])"
  by (simp add: saveSprite_def os_Create_def file_Write_def split: option.splits prod.splits)

lemma saveSprite_files:
  "files (snd (saveSprite en d f w)) =
     (case osCreate en f of
        Some err \<Rightarrow> files w
      | None \<Rightarrow> (case fileWrite en f d of
                   Some (n, err) \<Rightarrow> (files w)(f \<mapsto> take n d)
                 | None \<Rightarrow> (files w)(f \<mapsto> d)))"
  by (simp add: saveSprite_def os_Create_def file_Write_def contents_def
           split: option.splits prod.splits)

lemma saveSprite_requests: "requests (snd (saveSprite en d f w)) = requests w"
  by (simp add: saveSprite_def os_Create_def file_Write_def split: option.splits prod.splits)

lemma env_ok_fields [simp]:
  "httpGet env_ok = get_ok" "unmarshal env_ok = unmarshal_ok" "filepathJoin env_ok = join_cwd"
  "osCreate env_ok = create_ok" "fileWrite env_ok = write_ok"
  by (simp_all add: env_ok_def)

lemma env_read_only_fields [simp]:
  "osCreate env_read_only = create_denied"
  by (simp_all add: env_read_only_def env_ok_def)

lemma env_front_down_fields [simp]:
  "httpGet env_front_down = get_front_down" "unmarshal env_front_down = unmarshal_ok"
  "filepathJoin env_front_down = join_cwd"
  "osCreate env_front_down = create_ok" "fileWrite env_front_down = write_ok"
  by (simp_all add: env_front_down_def env_ok_def)

lemma bulbasaur_simps [simp]:
  "Pokemon.Name bulbasaur = ''bulbasaur''"
  "FrontDefault (Sprites bulbasaur) = ''https://img.example/1.png''"
  "BackDefault (Sprites bulbasaur) = ''https://img.example/back/1.png''"
  by (simp_all add: bulbasaur_def)

text \<open>
  C9. When \<open>saveSprite\<close> returns \<open>nil\<close>, the file at \<open>filename\<close> holds exactly the given
  data, whatever it held before. When \<open>os.Create\<close> fails, \<open>saveSprite\<close> returns an error
  built from that failure, the file system is as before, and no \<open>Write\<close> is attempted.
\<close>

theorem saveSprite_creates_or_truncates:
  "(fst (saveSprite en d f w) = None \<longrightarrow> files (snd (saveSprite en d f w)) f = Some d) \<and>
   (osCreate en f = Some err \<longrightarrow>
      fst (saveSprite en d f w) = Some (ErrorCreatingFile err) \<and>
      files (snd (saveSprite en d f w)) = files w \<and>
      since w (snd (saveSprite en d f w)) = [OsCreate f])"
  by (simp add: saveSprite_result saveSprite_files saveSprite_trace split: option.splits)

theorem saveSprite_creates_or_truncates_witness:
  "files (start [''bulbasaur_front.png'' \<mapsto> [0, 1, 2, 3, 4, 5]]) ''bulbasaur_front.png''
     = Some [0, 1, 2, 3, 4, 5] \<and>
   fst (saveSprite env_ok png ''bulbasaur_front.png''
         (start [''bulbasaur_front.png'' \<mapsto> [0, 1, 2, 3, 4, 5]])) = None \<and>
   files (snd (saveSprite env_ok png ''bulbasaur_front.png''
                (start [''bulbasaur_front.png'' \<mapsto> [0, 1, 2, 3, 4, 5]])))
     ''bulbasaur_front.png'' = Some png \<and>
   osCreate env_read_only ''bulbasaur_front.png'' = Some ''permission denied'' \<and>
   fst (saveSprite env_read_only png ''bulbasaur_front.png'' (start Map.empty))
     = Some (ErrorCreatingFile ''permission denied'') \<and>
   files (snd (saveSprite env_read_only png ''bulbasaur_front.png'' (start Map.empty)))
     = Map.empty"
proof -
  have r: "fst (saveSprite env_ok png ''bulbasaur_front.png''
         (start [''bulbasaur_front.png'' \<mapsto> [0, 1, 2, 3, 4, 5]])) = None"
    by (simp add: saveSprite_result)
  have c: "osCreate env_read_only ''bulbasaur_front.png'' = Some ''permission denied''"
    by simp
  show ?thesis
    using r c
      saveSprite_creates_or_truncates [of env_ok png "''bulbasaur_front.png''"
        "start [''bulbasaur_front.png'' \<mapsto> [0, 1, 2, 3, 4, 5]]"]
      saveSprite_creates_or_truncates [of env_read_only png "''bulbasaur_front.png''"
        "start Map.empty" "''permission denied''"]
    by simp
qed

subsection \<open>The two sprite blocks\<close>

lemma downloadSprite_result:
  "fst (downloadSprite en u w) =
     (case httpGet en (requests w) u of
        GetFailed err \<Rightarrow> Inl (ErrorDownloadingSprite err)
      | Response code body \<Rightarrow>
          if code \<noteq> 200 then Inl (UnexpectedStatusCode code)
          else (case body of
                  ReadFailed err \<Rightarrow> Inl (ErrorReadingSpriteData err)
                | ReadOK d \<Rightarrow> Inr d))"
  by (simp add: downloadSprite_def http_Get_def StatusOK_def
           split: prod.splits http_result.splits read_result.splits)

lemma downloadSprite_world: "snd (downloadSprite en u w) = snd (http_Get en u w)"
  by (simp add: downloadSprite_def split: prod.splits http_result.splits read_result.splits)

lemma print_fields_trace:
  "trace (print_fields p w) = trace w @
     [Println ''Pokemon Name:'' (PString (Pokemon.Name p)),
      Println ''Pokemon BaseExp:'' (PInt32 (BaseExp p)),
      Println ''Pokemon Height:'' (PInt32 (Height p)),
      Println ''Pokemon Id:'' (PInt32 (Id p)),
      Println ''Pokemon Sprites:'' (PSprites (Sprites p)),
      Println ''Pokemon Abilities:'' (PStats (StatInfo p))]"
  by (simp add: print_fields_def Let_def)

lemma print_fields_rest [simp]:
  "files (print_fields p w) = files w"
  "requests (print_fields p w) = requests w"
  by (simp_all add: print_fields_def Let_def)

lemma front_sprite_trace:
  "trace (front_sprite en p w) = trace w @
     (if FrontDefault (Sprites p) = [] then []
      else HttpGet (FrontDefault (Sprites p)) #
        (case fst (downloadSprite en (FrontDefault (Sprites p)) w) of
           Inl err \<Rightarrow> [Println ''Error downloading front sprite:'' (PError (Some err))]
         | Inr d \<Rightarrow> OsCreate (frontFilename en p) #
             (case osCreate en (frontFilename en p) of
                Some err \<Rightarrow>
                  [Println ''Error saving front sprite:'' (PError (Some (ErrorCreatingFile err)))]
              | None \<Rightarrow> FileWrite (frontFilename en p) d #
                  (case fileWrite en (frontFilename en p) d of
                     Some (n, err) \<Rightarrow>
                       [Println ''Error saving front sprite:''
                          (PError (Some (ErrorSavingSprite err)))]
                   | None \<Rightarrow>
                       [Println ''Front sprite saved as:'' (PString (frontFilename en p))]))))"
  by (simp add: front_sprite_def downloadSprite_def saveSprite_def os_Create_def file_Write_def
        http_Get_def StatusOK_def
      split: prod.splits sum.splits option.splits http_result.splits read_result.splits)

lemma back_sprite_trace:
  "trace (back_sprite en p w) = trace w @
     (if BackDefault (Sprites p) = [] then []
      else HttpGet (BackDefault (Sprites p)) #
        (case fst (downloadSprite en (BackDefault (Sprites p)) w) of
           Inl err \<Rightarrow> [Println ''Error downloading back sprite:'' (PError (Some err))]
         | Inr d \<Rightarrow> OsCreate (backFilename en p) #
             (case osCreate en (backFilename en p) of
                Some err \<Rightarrow>
                  [Println ''Error saving back sprite:'' (PError (Some (ErrorCreatingFile err)))]
              | None \<Rightarrow> FileWrite (backFilename en p) d #
                  (case fileWrite en (backFilename en p) d of
                     Some (n, err) \<Rightarrow>
                       [Println ''Error saving back sprite:''
                          (PError (Some (ErrorSavingSprite err)))]
                   | None \<Rightarrow>
                       [Println ''Back sprite saved as:'' (PString (backFilename en p))]))))"
  by (simp add: back_sprite_def downloadSprite_def saveSprite_def os_Create_def file_Write_def
        http_Get_def StatusOK_def
      split: prod.splits sum.splits option.splits http_result.splits read_result.splits)

lemma front_sprite_requests:
  "requests (front_sprite en p w) =
     (if FrontDefault (Sprites p) = [] then requests w else Suc (requests w))"
  by (auto simp add: front_sprite_def downloadSprite_def saveSprite_def os_Create_def file_Write_def
        http_Get_def StatusOK_def
      split: prod.splits sum.splits option.splits http_result.splits read_result.splits)

lemma back_sprite_requests:
  "requests (back_sprite en p w) =
     (if BackDefault (Sprites p) = [] then requests w else Suc (requests w))"
  by (auto simp add: back_sprite_def downloadSprite_def saveSprite_def os_Create_def file_Write_def
        http_Get_def StatusOK_def
      split: prod.splits sum.splits option.splits http_result.splits read_result.splits)

lemma front_sprite_files:
  "files (front_sprite en p w) =
     (if FrontDefault (Sprites p) = [] then files w
      else (case fst (downloadSprite en (FrontDefault (Sprites p)) w) of
              Inl err \<Rightarrow> files w
            | Inr d \<Rightarrow>
                (case osCreate en (frontFilename en p) of
                   Some err \<Rightarrow> files w
                 | None \<Rightarrow>
                     (case fileWrite en (frontFilename en p) d of
                        Some (n, err) \<Rightarrow> (files w)(frontFilename en p \<mapsto> take n d)
                      | None \<Rightarrow> (files w)(frontFilename en p \<mapsto> d)))))"
  by (auto simp add: front_sprite_def downloadSprite_def saveSprite_def os_Create_def file_Write_def
        http_Get_def StatusOK_def contents_def
      split: prod.splits sum.splits option.splits http_result.splits read_result.splits)

lemma back_sprite_files:
  "files (back_sprite en p w) =
     (if BackDefault (Sprites p) = [] then files w
      else (case fst (downloadSprite en (BackDefault (Sprites p)) w) of
              Inl err \<Rightarrow> files w
            | Inr d \<Rightarrow>
                (case osCreate en (backFilename en p) of
                   Some err \<Rightarrow> files w
                 | None \<Rightarrow>
                     (case fileWrite en (backFilename en p) d of
                        Some (n, err) \<Rightarrow> (files w)(backFilename en p \<mapsto> take n d)
                      | None \<Rightarrow> (files w)(backFilename en p \<mapsto> d)))))"
  by (auto simp add: back_sprite_def downloadSprite_def saveSprite_def os_Create_def file_Write_def
        http_Get_def StatusOK_def contents_def
      split: prod.splits sum.splits option.splits http_result.splits read_result.splits)

lemma front_events_eq:
  "front_events en fs p =
     (if FrontDefault (Sprites p) = [] then []
      else HttpGet (FrontDefault (Sprites p)) #
        (case fst (downloadSprite en (FrontDefault (Sprites p)) (after_print en fs p)) of
           Inl err \<Rightarrow> [Println ''Error downloading front sprite:'' (PError (Some err))]
         | Inr d \<Rightarrow> OsCreate (frontFilename en p) #
             (case osCreate en (frontFilename en p) of
                Some err \<Rightarrow>
                  [Println ''Error saving front sprite:'' (PError (Some (ErrorCreatingFile err)))]
              | None \<Rightarrow> FileWrite (frontFilename en p) d #
                  (case fileWrite en (frontFilename en p) d of
                     Some (n, err) \<Rightarrow>
                       [Println ''Error saving front sprite:''
                          (PError (Some (ErrorSavingSprite err)))]
                   | None \<Rightarrow>
                       [Println ''Front sprite saved as:'' (PString (frontFilename en p))]))))"
  unfolding front_events_def after_front_def
  by (rule since_append) (rule front_sprite_trace)

lemma back_events_eq:
  "back_events en fs p =
     (if BackDefault (Sprites p) = [] then []
      else HttpGet (BackDefault (Sprites p)) #
        (case fst (downloadSprite en (BackDefault (Sprites p)) (after_front en fs p)) of
           Inl err \<Rightarrow> [Println ''Error downloading back sprite:'' (PError (Some err))]
         | Inr d \<Rightarrow> OsCreate (backFilename en p) #
             (case osCreate en (backFilename en p) of
                Some err \<Rightarrow>
                  [Println ''Error saving back sprite:'' (PError (Some (ErrorCreatingFile err)))]
              | None \<Rightarrow> FileWrite (backFilename en p) d #
                  (case fileWrite en (backFilename en p) d of
                     Some (n, err) \<Rightarrow>
                       [Println ''Error saving back sprite:''
                          (PError (Some (ErrorSavingSprite err)))]
                   | None \<Rightarrow>
                       [Println ''Back sprite saved as:'' (PString (backFilename en p))]))))"
  unfolding back_events_def after_back_def
  by (rule since_append) (rule back_sprite_trace)

lemma after_front_trace:
  "trace (after_front en fs p) = trace (after_print en fs p) @ front_events en fs p"
  unfolding front_events_eq unfolding after_front_def by (rule front_sprite_trace)

lemma after_back_trace:
  "trace (after_back en fs p) = trace (after_front en fs p) @ back_events en fs p"
  unfolding back_events_eq unfolding after_back_def by (rule back_sprite_trace)

lemma after_print_trace:
  "trace (after_print en fs p) =
     [HttpGet url,
      Println ''Pokemon Name:'' (PString (Pokemon.Name p)),
      Println ''Pokemon BaseExp:'' (PInt32 (BaseExp p)),
      Println ''Pokemon Height:'' (PInt32 (Height p)),
      Println ''Pokemon Id:'' (PInt32 (Id p)),
      Println ''Pokemon Sprites:'' (PSprites (Sprites p)),
      Println ''Pokemon Abilities:'' (PStats (StatInfo p))]"
  by (simp add: after_print_def print_fields_trace)

lemma main_decoded:
  assumes "httpGet en 0 url = Response 200 (ReadOK body)" and "parseJSON en body = Inr p"
  shows "main en fs = Some (after_back en fs p)"
  using assms
  by (simp add: main_eq select_body_def after_back_def after_front_def after_print_def)

lemma main_not_decoded:
  assumes "\<And>body p. httpGet en 0 url = Response 200 (ReadOK body) \<Longrightarrow> parseJSON en body \<noteq> Inr p"
  shows "\<exists>err. main en fs = Some (emit (Println ''Error:'' (PError (Some err))) (after_fetch en fs))"
  using assms
  by (auto simp add: main_eq select_body_def split: http_result.splits read_result.splits sum.splits)

lemma main_cases:
  "(\<exists>body p. httpGet en 0 url = Response 200 (ReadOK body) \<and> parseJSON en body = Inr p \<and>
       main en fs = Some (after_back en fs p)) \<or>
   (\<exists>err. (\<forall>b q. httpGet en 0 url = Response 200 (ReadOK b) \<longrightarrow> parseJSON en b \<noteq> Inr q) \<and>
       main en fs = Some (emit (Println ''Error:'' (PError (Some err))) (after_fetch en fs)))"
proof (cases "\<exists>body p. httpGet en 0 url = Response 200 (ReadOK body) \<and> parseJSON en body = Inr p")
  case True
  then show ?thesis using main_decoded [of en _ _ fs] by blast
next
  case False
  then have n: "\<And>b q. httpGet en 0 url = Response 200 (ReadOK b) \<Longrightarrow> parseJSON en b \<noteq> Inr q"
    by blast
  from main_not_decoded [of en fs, OF n] False show ?thesis by blast
qed

lemma get_urls_append [simp]: "get_urls (xs @ ys) = get_urls xs @ get_urls ys"
  by (induction xs rule: get_urls.induct) simp_all

lemma file_paths_append [simp]: "file_paths (xs @ ys) = file_paths xs @ file_paths ys"
  by (induction xs rule: file_paths.induct) simp_all

lemma printlns_append [simp]: "printlns (xs @ ys) = printlns xs @ printlns ys"
  by (induction xs rule: printlns.induct) simp_all

lemma after_print_requests [simp]: "requests (after_print en fs p) = Suc 0"
  by (simp add: after_print_def)

lemma after_print_files [simp]: "files (after_print en fs p) = fs"
  by (simp add: after_print_def)

subsection \<open>The example runs\<close>

lemma env_ok_fetch: "httpGet env_ok 0 url = Response 200 (ReadOK page)"
  by (simp add: env_ok_def)

lemma env_ok_parse: "parseJSON env_ok page = Inr bulbasaur"
  by (simp add: parseJSON_def env_ok_def)

lemma env_ok_unmarshal: "unmarshal env_ok page = Inr bulbasaur"
  by simp

lemma env_ok_front_download:
  "fst (downloadSprite env_ok (FrontDefault (Sprites bulbasaur)) w) = Inr png"
  by (simp add: downloadSprite_result env_ok_def url_def)

lemma env_ok_back_download:
  "fst (downloadSprite env_ok (BackDefault (Sprites bulbasaur)) w) = Inr png"
  by (simp add: downloadSprite_result env_ok_def url_def)

lemma env_ok_filenames [simp]:
  "frontFilename env_ok bulbasaur = ''bulbasaur_front.png''"
  "backFilename env_ok bulbasaur = ''bulbasaur_back.png''"
  by (simp_all add: frontFilename_def backFilename_def env_ok_def)

lemma env_ok_front_events:
  "front_events env_ok fs bulbasaur =
     [HttpGet ''https://img.example/1.png'', OsCreate ''bulbasaur_front.png'',
      FileWrite ''bulbasaur_front.png'' png,
      Println ''Front sprite saved as:'' (PString ''bulbasaur_front.png'')]"
  by (simp add: front_events_eq env_ok_front_download [simplified])

lemma env_ok_back_events:
  "back_events env_ok fs bulbasaur =
     [HttpGet ''https://img.example/back/1.png'', OsCreate ''bulbasaur_back.png'',
      FileWrite ''bulbasaur_back.png'' png,
      Println ''Back sprite saved as:'' (PString ''bulbasaur_back.png'')]"
  by (simp add: back_events_eq env_ok_back_download [simplified])

lemma env_sprites_missing_parse [simp]: "parseJSON env_sprites_missing page = Inr bulbasaur"
  by (simp add: parseJSON_def env_sprites_missing_def env_ok_def)

subsection \<open>When a sprite is requested and when it is saved\<close>

text \<open>
  C3, as the code has it. In a run that decodes a Pokemon, the front sprite block issues
  its GET exactly when \<open>front_default\<close> is not empty, and it calls \<open>saveSprite\<close> (an
  \<open>os.Create\<close>, then a \<open>Write\<close>) exactly when \<open>front_default\<close> is not empty and
  \<open>downloadSprite\<close> returned data. With an empty \<open>front_default\<close> the block leaves the
  world untouched. The same holds for the back sprite block and \<open>back_default\<close>.
\<close>

theorem sprite_steps_guarded:
  assumes "httpGet en 0 url = Response 200 (ReadOK body)" and "parseJSON en body = Inr p"
  shows "main en fs = Some (after_back en fs p) \<and>
    trace (after_back en fs p)
      = trace (after_print en fs p) @ front_events en fs p @ back_events en fs p \<and>
    (get_urls (front_events en fs p) \<noteq> [] \<longleftrightarrow> FrontDefault (Sprites p) \<noteq> []) \<and>
    (file_paths (front_events en fs p) \<noteq> [] \<longleftrightarrow>
       FrontDefault (Sprites p) \<noteq> [] \<and>
       (\<exists>d. fst (downloadSprite en (FrontDefault (Sprites p)) (after_print en fs p)) = Inr d)) \<and>
    (FrontDefault (Sprites p) = [] \<longrightarrow> after_front en fs p = after_print en fs p) \<and>
    (get_urls (back_events en fs p) \<noteq> [] \<longleftrightarrow> BackDefault (Sprites p) \<noteq> []) \<and>
    (file_paths (back_events en fs p) \<noteq> [] \<longleftrightarrow>
       BackDefault (Sprites p) \<noteq> [] \<and>
       (\<exists>d. fst (downloadSprite en (BackDefault (Sprites p)) (after_front en fs p)) = Inr d)) \<and>
    (BackDefault (Sprites p) = [] \<longrightarrow> after_back en fs p = after_front en fs p)"
proof -
  have m: "main en fs = Some (after_back en fs p)"
    using assms by (rule main_decoded)
  have t: "trace (after_back en fs p)
      = trace (after_print en fs p) @ front_events en fs p @ back_events en fs p"
    by (simp add: after_back_trace after_front_trace)
  have f1: "get_urls (front_events en fs p) \<noteq> [] \<longleftrightarrow> FrontDefault (Sprites p) \<noteq> []"
    by (simp add: front_events_eq)
  have f2: "file_paths (front_events en fs p) \<noteq> [] \<longleftrightarrow>
       FrontDefault (Sprites p) \<noteq> [] \<and>
       (\<exists>d. fst (downloadSprite en (FrontDefault (Sprites p)) (after_print en fs p)) = Inr d)"
    by (simp add: front_events_eq split: sum.splits option.splits)
  have f3: "FrontDefault (Sprites p) = [] \<longrightarrow> after_front en fs p = after_print en fs p"
    by (simp add: after_front_def front_sprite_def)
  have b1: "get_urls (back_events en fs p) \<noteq> [] \<longleftrightarrow> BackDefault (Sprites p) \<noteq> []"
    by (simp add: back_events_eq)
  have b2: "file_paths (back_events en fs p) \<noteq> [] \<longleftrightarrow>
       BackDefault (Sprites p) \<noteq> [] \<and>
       (\<exists>d. fst (downloadSprite en (BackDefault (Sprites p)) (after_front en fs p)) = Inr d)"
    by (simp add: back_events_eq split: sum.splits option.splits)
  have b3: "BackDefault (Sprites p) = [] \<longrightarrow> after_back en fs p = after_front en fs p"
    by (simp add: after_back_def back_sprite_def)
  from m t f1 f2 f3 b1 b2 b3 show ?thesis by blast
qed

theorem sprite_steps_guarded_witness:
  "httpGet env_ok 0 url = Response 200 (ReadOK page) \<and>
   parseJSON env_ok page = Inr bulbasaur \<and>
   main env_ok Map.empty = Some (after_back env_ok Map.empty bulbasaur) \<and>
   FrontDefault (Sprites bulbasaur) \<noteq> [] \<and>
   fst (downloadSprite env_ok (FrontDefault (Sprites bulbasaur))
         (after_print env_ok Map.empty bulbasaur)) = Inr png \<and>
   get_urls (front_events env_ok Map.empty bulbasaur) \<noteq> [] \<and>
   file_paths (front_events env_ok Map.empty bulbasaur) \<noteq> []"
  using sprite_steps_guarded [OF env_ok_fetch env_ok_parse, of Map.empty]
    env_ok_fetch env_ok_parse env_ok_front_download [of "after_print env_ok Map.empty bulbasaur"]
  by simp

text \<open>
  The claim C3 as worded ties the file write to the URL alone. In this run every sprite
  GET is answered with status 404: \<open>front_default\<close> is not empty and its GET is issued,
  yet no file operation happens in the whole run.
\<close>

theorem file_write_needs_download_counterexample:
  "FrontDefault (Sprites bulbasaur) \<noteq> [] \<and>
   main env_sprites_missing Map.empty = Some (after_back env_sprites_missing Map.empty bulbasaur) \<and>
   get_urls (front_events env_sprites_missing Map.empty bulbasaur)
     = [FrontDefault (Sprites bulbasaur)] \<and>
   file_paths (trace (after_back env_sprites_missing Map.empty bulbasaur)) = []"
proof -
  have g: "httpGet env_sprites_missing 0 url = Response 200 (ReadOK page)"
    by (simp add: env_sprites_missing_def env_ok_def)
  have p: "parseJSON env_sprites_missing page = Inr bulbasaur"
    by (simp add: parseJSON_def env_sprites_missing_def env_ok_def)
  have m: "main env_sprites_missing Map.empty
             = Some (after_back env_sprites_missing Map.empty bulbasaur)"
    using g p by (rule main_decoded)
  have f: "front_events env_sprites_missing Map.empty bulbasaur
             = [HttpGet (FrontDefault (Sprites bulbasaur)),
                Println ''Error downloading front sprite:''
                  (PError (Some (UnexpectedStatusCode 404)))]"
    by (simp add: front_events_eq downloadSprite_result bulbasaur_def
          env_sprites_missing_def env_ok_def)
  have r: "requests (after_front env_sprites_missing Map.empty bulbasaur) = Suc (Suc 0)"
    by (simp add: after_front_def front_sprite_requests bulbasaur_def)
  have b: "back_events env_sprites_missing Map.empty bulbasaur
             = [HttpGet (BackDefault (Sprites bulbasaur)),
                Println ''Error downloading back sprite:''
                  (PError (Some (UnexpectedStatusCode 404)))]"
    by (simp add: back_events_eq downloadSprite_result r)
       (simp add: bulbasaur_def env_sprites_missing_def env_ok_def)
  show ?thesis
    using m by (simp add: after_back_trace after_front_trace after_print_trace f b)
qed

subsection \<open>The files of a run\<close>

lemma file_paths_front: "set (file_paths (front_events en fs p)) \<subseteq> {frontFilename en p}"
  by (simp add: front_events_eq split: sum.splits option.splits)

lemma file_paths_back: "set (file_paths (back_events en fs p)) \<subseteq> {backFilename en p}"
  by (simp add: back_events_eq split: sum.splits option.splits)

lemma after_front_files_other:
  "path \<noteq> frontFilename en p \<Longrightarrow> files (after_front en fs p) path = fs path"
  by (simp add: after_front_def front_sprite_files split: sum.splits option.splits)

lemma after_back_files_other:
  "path \<noteq> backFilename en p \<Longrightarrow> files (after_back en fs p) path = files (after_front en fs p) path"
  by (simp add: after_back_def back_sprite_files split: sum.splits option.splits)

lemma front_saved:
  assumes "(''Front sprite saved as:'', PString (frontFilename en p))
             \<in> set (printlns (front_events en fs p))"
  shows "\<exists>d. fst (downloadSprite en (FrontDefault (Sprites p)) (after_print en fs p)) = Inr d \<and>
             files (after_front en fs p) (frontFilename en p) = Some d"
  using assms
  by (auto simp add: front_events_eq after_front_def front_sprite_files
        split: if_splits sum.splits option.splits)

lemma back_saved:
  assumes "(''Back sprite saved as:'', PString (backFilename en p))
             \<in> set (printlns (back_events en fs p))"
  shows "\<exists>d. fst (downloadSprite en (BackDefault (Sprites p)) (after_front en fs p)) = Inr d \<and>
             files (after_back en fs p) (backFilename en p) = Some d"
  using assms
  by (auto simp add: back_events_eq after_back_def back_sprite_files
        split: if_splits sum.splits option.splits)

text \<open>
  C4. In a run that decodes a Pokemon named \<open>n\<close>, every file operation of the front
  sprite block is on \<open>filepath.Join(".", n + "_front.png")\<close>, every one of the back sprite
  block on \<open>filepath.Join(".", n + "_back.png")\<close>, and there are no others; every other
  path holds what it held before the run. When the block reports the sprite as saved,
  the file at that path holds the downloaded bytes. A run that decodes no Pokemon makes
  no file operation and leaves the file system as it was.
\<close>

theorem files_named_after_pokemon:
  assumes "main en fs = Some w"
  shows
   "(httpGet en 0 url = Response 200 (ReadOK body) \<and> parseJSON en body = Inr p \<longrightarrow>
       file_paths (trace w)
         = file_paths (front_events en fs p) @ file_paths (back_events en fs p) \<and>
       set (file_paths (front_events en fs p))
         \<subseteq> {filepathJoin en ''.'' (Pokemon.Name p @ ''_front.png'')} \<and>
       set (file_paths (back_events en fs p))
         \<subseteq> {filepathJoin en ''.'' (Pokemon.Name p @ ''_back.png'')} \<and>
       (\<forall>path. path \<noteq> filepathJoin en ''.'' (Pokemon.Name p @ ''_front.png'') \<and>
               path \<noteq> filepathJoin en ''.'' (Pokemon.Name p @ ''_back.png'')
               \<longrightarrow> files w path = fs path) \<and>
       ((''Front sprite saved as:'',
           PString (filepathJoin en ''.'' (Pokemon.Name p @ ''_front.png'')))
          \<in> set (printlns (front_events en fs p)) \<longrightarrow>
        (\<exists>d. fst (downloadSprite en (FrontDefault (Sprites p)) (after_print en fs p)) = Inr d \<and>
             files (after_front en fs p)
               (filepathJoin en ''.'' (Pokemon.Name p @ ''_front.png'')) = Some d)) \<and>
       ((''Back sprite saved as:'',
           PString (filepathJoin en ''.'' (Pokemon.Name p @ ''_back.png'')))
          \<in> set (printlns (back_events en fs p)) \<longrightarrow>
        (\<exists>d. fst (downloadSprite en (BackDefault (Sprites p)) (after_front en fs p)) = Inr d \<and>
             files w (filepathJoin en ''.'' (Pokemon.Name p @ ''_back.png'')) = Some d))) \<and>
    ((\<forall>b q. httpGet en 0 url = Response 200 (ReadOK b) \<longrightarrow> parseJSON en b \<noteq> Inr q) \<longrightarrow>
       file_paths (trace w) = [] \<and> files w = fs)"
proof (intro conjI impI)
  assume "\<forall>b q. httpGet en 0 url = Response 200 (ReadOK b) \<longrightarrow> parseJSON en b \<noteq> Inr q"
  then obtain err where
    "main en fs = Some (emit (Println ''Error:'' (PError (Some err))) (after_fetch en fs))"
    using main_not_decoded [of en fs] by blast
  with assms have w: "w = emit (Println ''Error:'' (PError (Some err))) (after_fetch en fs)"
    by simp
  show "file_paths (trace w) = []" by (simp add: w)
  show "files w = fs" by (simp add: w)
next
  assume d: "httpGet en 0 url = Response 200 (ReadOK body) \<and> parseJSON en body = Inr p"
  then have "main en fs = Some (after_back en fs p)" by (simp add: main_decoded)
  with assms have w: "w = after_back en fs p" by simp
  show "file_paths (trace w)
         = file_paths (front_events en fs p) @ file_paths (back_events en fs p)"
    by (simp add: w after_back_trace after_front_trace after_print_trace)
  show "set (file_paths (front_events en fs p))
         \<subseteq> {filepathJoin en ''.'' (Pokemon.Name p @ ''_front.png'')}"
    using file_paths_front [of en fs p] by (simp add: frontFilename_def)
  show "set (file_paths (back_events en fs p))
         \<subseteq> {filepathJoin en ''.'' (Pokemon.Name p @ ''_back.png'')}"
    using file_paths_back [of en fs p] by (simp add: backFilename_def)
  show "\<forall>path. path \<noteq> filepathJoin en ''.'' (Pokemon.Name p @ ''_front.png'') \<and>
               path \<noteq> filepathJoin en ''.'' (Pokemon.Name p @ ''_back.png'')
               \<longrightarrow> files w path = fs path"
    using after_back_files_other [of _ en p fs] after_front_files_other [of _ en p fs]
    by (simp add: w frontFilename_def backFilename_def)
  {
    assume "(''Front sprite saved as:'',
           PString (filepathJoin en ''.'' (Pokemon.Name p @ ''_front.png'')))
          \<in> set (printlns (front_events en fs p))"
    then show "\<exists>d. fst (downloadSprite en (FrontDefault (Sprites p)) (after_print en fs p)) = Inr d \<and>
             files (after_front en fs p)
               (filepathJoin en ''.'' (Pokemon.Name p @ ''_front.png'')) = Some d"
      using front_saved [of en p fs] by (simp add: frontFilename_def)
  }
  {
    assume "(''Back sprite saved as:'',
           PString (filepathJoin en ''.'' (Pokemon.Name p @ ''_back.png'')))
          \<in> set (printlns (back_events en fs p))"
    then show "\<exists>d. fst (downloadSprite en (BackDefault (Sprites p)) (after_front en fs p)) = Inr d \<and>
             files w (filepathJoin en ''.'' (Pokemon.Name p @ ''_back.png'')) = Some d"
      using back_saved [of en p fs] by (simp add: w backFilename_def)
  }
qed

theorem files_named_after_pokemon_witness:
  "main env_ok Map.empty = Some (after_back env_ok Map.empty bulbasaur) \<and>
   httpGet env_ok 0 url = Response 200 (ReadOK page) \<and>
   parseJSON env_ok page = Inr bulbasaur \<and>
   file_paths (trace (after_back env_ok Map.empty bulbasaur))
     = [''bulbasaur_front.png'', ''bulbasaur_front.png'',
        ''bulbasaur_back.png'', ''bulbasaur_back.png''] \<and>
   files (after_back env_ok Map.empty bulbasaur) ''notes.txt'' = None \<and>
   files (after_back env_ok Map.empty bulbasaur) ''bulbasaur_back.png'' = Some png"
proof -
  have m: "main env_ok Map.empty = Some (after_back env_ok Map.empty bulbasaur)"
    using env_ok_fetch env_ok_parse by (rule main_decoded)
  note t = files_named_after_pokemon [OF m, of page bulbasaur]
  have d: "httpGet env_ok 0 url = Response 200 (ReadOK page) \<and> parseJSON env_ok page = Inr bulbasaur"
    using env_ok_fetch env_ok_parse by simp
  have j [simp]: "filepathJoin env_ok ''.'' ''bulbasaur_front.png'' = ''bulbasaur_front.png''"
    "filepathJoin env_ok ''.'' ''bulbasaur_back.png'' = ''bulbasaur_back.png''"
    by (simp_all add: env_ok_def)
  from t d have 1: "file_paths (trace (after_back env_ok Map.empty bulbasaur))
     = [''bulbasaur_front.png'', ''bulbasaur_front.png'',
        ''bulbasaur_back.png'', ''bulbasaur_back.png'']"
    by (simp add: env_ok_front_events env_ok_back_events)
  from t d have "\<forall>path. path \<noteq> ''bulbasaur_front.png'' \<and> path \<noteq> ''bulbasaur_back.png''
      \<longrightarrow> files (after_back env_ok Map.empty bulbasaur) path = Map.empty path"
    by simp
  then have 2: "files (after_back env_ok Map.empty bulbasaur) ''notes.txt'' = None"
    by simp
  from t d have "\<exists>d. fst (downloadSprite env_ok ''https://img.example/back/1.png''
                 (after_front env_ok Map.empty bulbasaur)) = Inr d \<and>
       files (after_back env_ok Map.empty bulbasaur) ''bulbasaur_back.png'' = Some d"
    by (simp add: env_ok_back_events)
  then have 3: "files (after_back env_ok Map.empty bulbasaur) ''bulbasaur_back.png'' = Some png"
    using env_ok_back_download [of "after_front env_ok Map.empty bulbasaur"] by auto
  from m d 1 2 3 show ?thesis by simp
qed

subsection \<open>A failed sprite step\<close>

lemma get_urls_front:
  "get_urls (front_events en fs p)
     = (if FrontDefault (Sprites p) = [] then [] else [FrontDefault (Sprites p)])"
  by (simp add: front_events_eq split: sum.splits option.splits)

lemma get_urls_back:
  "get_urls (back_events en fs p)
     = (if BackDefault (Sprites p) = [] then [] else [BackDefault (Sprites p)])"
  by (simp add: back_events_eq split: sum.splits option.splits)

lemma after_back_get_urls:
  "get_urls (trace (after_back en fs p))
     = url # get_urls (front_events en fs p) @ get_urls (back_events en fs p)"
  by (simp add: after_back_trace after_front_trace after_print_trace)

text \<open>
  C5. Every run issues the GET of the fixed URL first and at most three GETs in all. In a
  run that decodes a Pokemon the GETs are exactly: the fixed URL, then \<open>front_default\<close>
  if it is not empty, then \<open>back_default\<close> if it is not empty, each once, whatever
  happened in the front sprite block. When the front download fails, the front block is
  its GET and one console line with the error; when saving fails, its last event is the
  console line with that error.
\<close>

theorem sprite_failure_is_local:
  "\<exists>w. main en fs = Some w \<and>
     take 1 (get_urls (trace w)) = [url] \<and> length (get_urls (trace w)) \<le> 3 \<and>
     (httpGet en 0 url = Response 200 (ReadOK body) \<and> parseJSON en body = Inr p \<longrightarrow>
        w = after_back en fs p \<and>
        get_urls (trace w)
          = url # get_urls (front_events en fs p) @ get_urls (back_events en fs p) \<and>
        get_urls (front_events en fs p)
          = (if FrontDefault (Sprites p) = [] then [] else [FrontDefault (Sprites p)]) \<and>
        get_urls (back_events en fs p)
          = (if BackDefault (Sprites p) = [] then [] else [BackDefault (Sprites p)]) \<and>
        (FrontDefault (Sprites p) \<noteq> [] \<and>
         fst (downloadSprite en (FrontDefault (Sprites p)) (after_print en fs p)) = Inl err \<longrightarrow>
           front_events en fs p
             = [HttpGet (FrontDefault (Sprites p)),
                Println ''Error downloading front sprite:'' (PError (Some err))]) \<and>
        (FrontDefault (Sprites p) \<noteq> [] \<and>
         fst (downloadSprite en (FrontDefault (Sprites p)) (after_print en fs p)) = Inr d \<and>
         fst (saveSprite en d (frontFilename en p)
               (snd (downloadSprite en (FrontDefault (Sprites p)) (after_print en fs p))))
           = Some err \<longrightarrow>
           last (front_events en fs p)
             = Println ''Error saving front sprite:'' (PError (Some err))))"
proof -
  from main_cases [of en fs] show ?thesis
  proof (elim disjE exE conjE)
    fix e0
    assume n: "\<forall>b q. httpGet en 0 url = Response 200 (ReadOK b) \<longrightarrow> parseJSON en b \<noteq> Inr q"
      and m: "main en fs = Some (emit (Println ''Error:'' (PError (Some e0))) (after_fetch en fs))"
    have no: "\<not> (httpGet en 0 url = Response 200 (ReadOK body) \<and> parseJSON en body = Inr p)"
      using n by blast
    show ?thesis
    proof (intro exI conjI)
      show "main en fs = Some (emit (Println ''Error:'' (PError (Some e0))) (after_fetch en fs))"
        by (rule m)
    qed (simp_all add: no)
  next
    fix b q
    assume g: "httpGet en 0 url = Response 200 (ReadOK b)" and pq: "parseJSON en b = Inr q"
      and m: "main en fs = Some (after_back en fs q)"
    have len: "length (get_urls (trace (after_back en fs q))) \<le> 3"
      by (simp add: after_back_get_urls get_urls_front get_urls_back)
    have e1: "FrontDefault (Sprites q) \<noteq> [] \<and>
         fst (downloadSprite en (FrontDefault (Sprites q)) (after_print en fs q)) = Inl err \<longrightarrow>
           front_events en fs q
             = [HttpGet (FrontDefault (Sprites q)),
                Println ''Error downloading front sprite:'' (PError (Some err))]"
      by (simp add: front_events_eq)
    have e2: "FrontDefault (Sprites q) \<noteq> [] \<and>
         fst (downloadSprite en (FrontDefault (Sprites q)) (after_print en fs q)) = Inr d \<and>
         fst (saveSprite en d (frontFilename en q)
               (snd (downloadSprite en (FrontDefault (Sprites q)) (after_print en fs q))))
           = Some err \<longrightarrow>
           last (front_events en fs q)
             = Println ''Error saving front sprite:'' (PError (Some err))"
      by (auto simp add: front_events_eq saveSprite_result split: option.splits)
    show ?thesis
    proof (intro exI conjI impI)
      show "main en fs = Some (after_back en fs q)" by (rule m)
      show "take 1 (get_urls (trace (after_back en fs q))) = [url]"
        by (simp add: after_back_get_urls)
      show "length (get_urls (trace (after_back en fs q))) \<le> 3" by (rule len)
    next
      assume "httpGet en 0 url = Response 200 (ReadOK body) \<and> parseJSON en body = Inr p"
      with g pq have qp: "q = p" by simp
      show "after_back en fs q = after_back en fs p" by (simp add: qp)
      show "get_urls (trace (after_back en fs q))
          = url # get_urls (front_events en fs p) @ get_urls (back_events en fs p)"
        by (simp add: qp after_back_get_urls)
      show "get_urls (front_events en fs p)
          = (if FrontDefault (Sprites p) = [] then [] else [FrontDefault (Sprites p)])"
        by (rule get_urls_front)
      show "get_urls (back_events en fs p)
          = (if BackDefault (Sprites p) = [] then [] else [BackDefault (Sprites p)])"
        by (rule get_urls_back)
      {
        assume "FrontDefault (Sprites p) \<noteq> [] \<and>
         fst (downloadSprite en (FrontDefault (Sprites p)) (after_print en fs p)) = Inl err"
        then show "front_events en fs p
             = [HttpGet (FrontDefault (Sprites p)),
                Println ''Error downloading front sprite:'' (PError (Some err))]"
          using e1 by (simp add: qp)
      }
      {
        assume "FrontDefault (Sprites p) \<noteq> [] \<and>
         fst (downloadSprite en (FrontDefault (Sprites p)) (after_print en fs p)) = Inr d \<and>
         fst (saveSprite en d (frontFilename en p)
               (snd (downloadSprite en (FrontDefault (Sprites p)) (after_print en fs p))))
           = Some err"
        then show "last (front_events en fs p)
             = Println ''Error saving front sprite:'' (PError (Some err))"
          using e2 by (simp add: qp)
      }
    qed
  qed
qed

theorem sprite_failure_is_local_witness:
  "httpGet env_front_down 0 url = Response 200 (ReadOK page) \<and>
   parseJSON env_front_down page = Inr bulbasaur \<and>
   FrontDefault (Sprites bulbasaur) \<noteq> [] \<and>
   fst (downloadSprite env_front_down (FrontDefault (Sprites bulbasaur))
         (after_print env_front_down Map.empty bulbasaur))
     = Inl (ErrorDownloadingSprite ''connection reset by peer'') \<and>
   main env_front_down Map.empty = Some (after_back env_front_down Map.empty bulbasaur) \<and>
   front_events env_front_down Map.empty bulbasaur
     = [HttpGet ''https://img.example/1.png'',
        Println ''Error downloading front sprite:''
          (PError (Some (ErrorDownloadingSprite ''connection reset by peer'')))] \<and>
   get_urls (trace (after_back env_front_down Map.empty bulbasaur))
     = [url, ''https://img.example/1.png'', ''https://img.example/back/1.png'']"
proof -
  have g: "httpGet env_front_down 0 url = Response 200 (ReadOK page)" by simp
  have p: "parseJSON env_front_down page = Inr bulbasaur" by (simp add: parseJSON_def)
  have d: "fst (downloadSprite env_front_down (FrontDefault (Sprites bulbasaur))
         (after_print env_front_down Map.empty bulbasaur))
     = Inl (ErrorDownloadingSprite ''connection reset by peer'')"
    by (simp add: downloadSprite_result)
  from sprite_failure_is_local [of env_front_down Map.empty page bulbasaur
      "ErrorDownloadingSprite ''connection reset by peer''"]
  obtain w where m: "main env_front_down Map.empty = Some w"
    and w: "w = after_back env_front_down Map.empty bulbasaur"
    and u: "get_urls (trace w) = url # get_urls (front_events env_front_down Map.empty bulbasaur)
              @ get_urls (back_events env_front_down Map.empty bulbasaur)"
    and f: "get_urls (front_events env_front_down Map.empty bulbasaur)
              = [''https://img.example/1.png'']"
    and b: "get_urls (back_events env_front_down Map.empty bulbasaur)
              = [''https://img.example/back/1.png'']"
    and e: "front_events env_front_down Map.empty bulbasaur
     = [HttpGet ''https://img.example/1.png'',
        Println ''Error downloading front sprite:''
          (PError (Some (ErrorDownloadingSprite ''connection reset by peer'')))]"
    using g p d by auto
  from g p d m w u f b e show ?thesis by simp
qed

subsection \<open>The order of a run\<close>

lemma front_events_shape:
  "(FrontDefault (Sprites p) = [] \<longrightarrow> front_events en fs p = []) \<and>
   (FrontDefault (Sprites p) \<noteq> [] \<longrightarrow>
      hd (front_events en fs p) = HttpGet (FrontDefault (Sprites p)) \<and>
      get_urls (tl (front_events en fs p)) = [])"
  by (simp add: front_events_eq split: sum.splits option.splits)

lemma back_events_shape:
  "(BackDefault (Sprites p) = [] \<longrightarrow> back_events en fs p = []) \<and>
   (BackDefault (Sprites p) \<noteq> [] \<longrightarrow>
      hd (back_events en fs p) = HttpGet (BackDefault (Sprites p)) \<and>
      get_urls (tl (back_events en fs p)) = [])"
  by (simp add: back_events_eq split: sum.splits option.splits)

text \<open>
  C6. Every run starts with the GET of the fixed URL, and none of its next six events
  is a GET or a file operation. A run that decodes a Pokemon is: that GET, the six field
  lines in the order of the source, the events of the front sprite block, the events of
  the back sprite block. A block that runs starts with its GET and issues no other; its
  file operations are on its own file name and come after that GET. So every sprite GET
  comes after the six field lines, and every file operation of the front block comes
  before the GET of the back block.
\<close>

theorem run_order:
  "\<exists>w. main en fs = Some w \<and> take 1 (trace w) = [HttpGet url] \<and>
     get_urls (drop 1 (take 7 (trace w))) = [] \<and> file_paths (take 7 (trace w)) = [] \<and>
     (httpGet en 0 url = Response 200 (ReadOK body) \<and> parseJSON en body = Inr p \<longrightarrow>
        trace w =
          HttpGet url #
          [Println ''Pokemon Name:'' (PString (Pokemon.Name p)),
           Println ''Pokemon BaseExp:'' (PInt32 (BaseExp p)),
           Println ''Pokemon Height:'' (PInt32 (Height p)),
           Println ''Pokemon Id:'' (PInt32 (Id p)),
           Println ''Pokemon Sprites:'' (PSprites (Sprites p)),
           Println ''Pokemon Abilities:'' (PStats (StatInfo p))] @
          front_events en fs p @ back_events en fs p \<and>
        (FrontDefault (Sprites p) = [] \<longrightarrow> front_events en fs p = []) \<and>
        (FrontDefault (Sprites p) \<noteq> [] \<longrightarrow>
           hd (front_events en fs p) = HttpGet (FrontDefault (Sprites p)) \<and>
           get_urls (tl (front_events en fs p)) = []) \<and>
        set (file_paths (front_events en fs p)) \<subseteq> {frontFilename en p} \<and>
        (BackDefault (Sprites p) = [] \<longrightarrow> back_events en fs p = []) \<and>
        (BackDefault (Sprites p) \<noteq> [] \<longrightarrow>
           hd (back_events en fs p) = HttpGet (BackDefault (Sprites p)) \<and>
           get_urls (tl (back_events en fs p)) = []) \<and>
        set (file_paths (back_events en fs p)) \<subseteq> {backFilename en p})"
proof -
  from main_cases [of en fs] show ?thesis
  proof (elim disjE exE conjE)
    fix e0
    assume n: "\<forall>b q. httpGet en 0 url = Response 200 (ReadOK b) \<longrightarrow> parseJSON en b \<noteq> Inr q"
      and m: "main en fs = Some (emit (Println ''Error:'' (PError (Some e0))) (after_fetch en fs))"
    have no: "\<not> (httpGet en 0 url = Response 200 (ReadOK body) \<and> parseJSON en body = Inr p)"
      using n by blast
    show ?thesis
    proof (intro exI conjI)
      show "main en fs = Some (emit (Println ''Error:'' (PError (Some e0))) (after_fetch en fs))"
        by (rule m)
    qed (simp_all add: no)
  next
    fix b q
    assume g: "httpGet en 0 url = Response 200 (ReadOK b)" and pq: "parseJSON en b = Inr q"
      and m: "main en fs = Some (after_back en fs q)"
    have t: "trace (after_back en fs q) =
          HttpGet url #
          [Println ''Pokemon Name:'' (PString (Pokemon.Name q)),
           Println ''Pokemon BaseExp:'' (PInt32 (BaseExp q)),
           Println ''Pokemon Height:'' (PInt32 (Height q)),
           Println ''Pokemon Id:'' (PInt32 (Id q)),
           Println ''Pokemon Sprites:'' (PSprites (Sprites q)),
           Println ''Pokemon Abilities:'' (PStats (StatInfo q))] @
          front_events en fs q @ back_events en fs q"
      by (simp add: after_back_trace after_front_trace after_print_trace)
    show ?thesis
    proof (intro exI conjI impI)
      show "main en fs = Some (after_back en fs q)" by (rule m)
      show "take 1 (trace (after_back en fs q)) = [HttpGet url]" by (simp add: t)
      show "get_urls (drop 1 (take 7 (trace (after_back en fs q)))) = []" by (simp add: t)
      show "file_paths (take 7 (trace (after_back en fs q))) = []" by (simp add: t)
    next
      assume "httpGet en 0 url = Response 200 (ReadOK body) \<and> parseJSON en body = Inr p"
      with g pq have qp: "q = p" by simp
      show "trace (after_back en fs q) =
          HttpGet url #
          [Println ''Pokemon Name:'' (PString (Pokemon.Name p)),
           Println ''Pokemon BaseExp:'' (PInt32 (BaseExp p)),
           Println ''Pokemon Height:'' (PInt32 (Height p)),
           Println ''Pokemon Id:'' (PInt32 (Id p)),
           Println ''Pokemon Sprites:'' (PSprites (Sprites p)),
           Println ''Pokemon Abilities:'' (PStats (StatInfo p))] @
          front_events en fs p @ back_events en fs p"
        using t by (simp add: qp)
      show "set (file_paths (front_events en fs p)) \<subseteq> {frontFilename en p}"
        by (rule file_paths_front)
      show "set (file_paths (back_events en fs p)) \<subseteq> {backFilename en p}"
        by (rule file_paths_back)
    qed (simp_all add: front_events_shape back_events_shape)
  qed
qed

theorem run_order_witness:
  "httpGet env_ok 0 url = Response 200 (ReadOK page) \<and>
   parseJSON env_ok page = Inr bulbasaur \<and>
   main env_ok Map.empty = Some (after_back env_ok Map.empty bulbasaur) \<and>
   trace (after_back env_ok Map.empty bulbasaur) =
     [HttpGet url,
      Println ''Pokemon Name:'' (PString ''bulbasaur''),
      Println ''Pokemon BaseExp:'' (PInt32 64),
      Println ''Pokemon Height:'' (PInt32 7),
      Println ''Pokemon Id:'' (PInt32 1),
      Println ''Pokemon Sprites:'' (PSprites (Sprites bulbasaur)),
      Println ''Pokemon Abilities:'' (PStats (StatInfo bulbasaur)),
      HttpGet ''https://img.example/1.png'', OsCreate ''bulbasaur_front.png'',
      FileWrite ''bulbasaur_front.png'' png,
      Println ''Front sprite saved as:'' (PString ''bulbasaur_front.png''),
      HttpGet ''https://img.example/back/1.png'', OsCreate ''bulbasaur_back.png'',
      FileWrite ''bulbasaur_back.png'' png,
      Println ''Back sprite saved as:'' (PString ''bulbasaur_back.png'')]"
proof -
  from run_order [of env_ok Map.empty page bulbasaur]
  obtain w where m: "main env_ok Map.empty = Some w"
    and t: "trace w =
          HttpGet url #
          [Println ''Pokemon Name:'' (PString (Pokemon.Name bulbasaur)),
           Println ''Pokemon BaseExp:'' (PInt32 (BaseExp bulbasaur)),
           Println ''Pokemon Height:'' (PInt32 (Height bulbasaur)),
           Println ''Pokemon Id:'' (PInt32 (Id bulbasaur)),
           Println ''Pokemon Sprites:'' (PSprites (Sprites bulbasaur)),
           Println ''Pokemon Abilities:'' (PStats (StatInfo bulbasaur))] @
          front_events env_ok Map.empty bulbasaur @ back_events env_ok Map.empty bulbasaur"
    using env_ok_fetch env_ok_parse by auto
  have w: "w = after_back env_ok Map.empty bulbasaur"
    using m main_decoded [OF env_ok_fetch env_ok_parse, of Map.empty] by simp
  have v: "BaseExp bulbasaur = 64" "Height bulbasaur = 7" "Id bulbasaur = 1"
    by (simp_all add: bulbasaur_def)
  from m t show ?thesis
    using env_ok_fetch env_ok_parse
    by (simp add: w v env_ok_front_events env_ok_back_events)
qed

subsection \<open>The console lines\<close>

lemma printlns_front:
  "length (printlns (front_events en fs p)) \<le> 1 \<and>
   fst ` set (printlns (front_events en fs p))
     \<subseteq> {''Error downloading front sprite:'', ''Error saving front sprite:'',
         ''Front sprite saved as:''}"
  by (simp add: front_events_eq split: sum.splits option.splits)

lemma printlns_back:
  "length (printlns (back_events en fs p)) \<le> 1 \<and>
   fst ` set (printlns (back_events en fs p))
     \<subseteq> {''Error downloading back sprite:'', ''Error saving back sprite:'',
         ''Back sprite saved as:''}"
  by (simp add: back_events_eq split: sum.splits option.splits)

subsection \<open>The keys of the wire schema\<close>

lemma members_other:
  assumes "members fld st kvs x = Inr y"
    and "\<And>t' v a b. t' \<noteq> t \<Longrightarrow> st t' v a = Inr b \<Longrightarrow> g b = g a"
    and "filter (\<lambda>kv. fld (fst kv) = Some t) kvs = []"
  shows "g y = g x"
  using assms(1,3)
proof (induction kvs arbitrary: x)
  case Nil
  then show ?case by simp
next
  case (Cons kv kvs)
  obtain key v where kv: "kv = (key, v)" by (cases kv)
  from Cons.prems(2) have nt: "fld key \<noteq> Some t"
    and rest: "filter (\<lambda>kv. fld (fst kv) = Some t) kvs = []"
    by (simp_all add: kv split: if_splits)
  show ?case
  proof (cases "fld key")
    case None
    with Cons.prems(1) have "members fld st kvs x = Inr y" by (simp add: kv)
    then show ?thesis using rest by (rule Cons.IH)
  next
    case (Some t')
    with nt have ne: "t' \<noteq> t" by simp
    from Cons.prems(1) Some obtain x' where s: "st t' v x = Inr x'"
      and m: "members fld st kvs x' = Inr y"
      by (auto simp add: kv split: sum.splits)
    have "g y = g x'" using m rest by (rule Cons.IH)
    also have "g x' = g x" using ne s by (rule assms(2))
    finally show ?thesis .
  qed
qed

lemma members_one:
  assumes "members fld st kvs x = Inr y"
    and other: "\<And>t' v a b. t' \<noteq> t \<Longrightarrow> st t' v a = Inr b \<Longrightarrow> g b = g a"
    and own: "\<And>v a b. st t v a = Inr b \<Longrightarrow> dec v (g a) = Inr (g b)"
    and "map snd (filter (\<lambda>kv. fld (fst kv) = Some t) kvs) = [v]"
  shows "dec v (g x) = Inr (g y)"
  using assms(1,4)
proof (induction kvs arbitrary: x)
  case Nil
  then show ?case by simp
next
  case (Cons kv kvs)
  obtain key u where kv: "kv = (key, u)" by (cases kv)
  show ?case
  proof (cases "fld key")
    case None
    with Cons.prems have "members fld st kvs x = Inr y"
      and "map snd (filter (\<lambda>kv. fld (fst kv) = Some t) kvs) = [v]"
      by (simp_all add: kv)
    then show ?thesis by (rule Cons.IH)
  next
    case (Some t')
    from Cons.prems(1) Some obtain x' where s: "st t' u x = Inr x'"
      and m: "members fld st kvs x' = Inr y"
      by (auto simp add: kv split: sum.splits)
    show ?thesis
    proof (cases "t' = t")
      case True
      with Cons.prems(2) Some have uv: "u = v"
        and rest: "filter (\<lambda>kv. fld (fst kv) = Some t) kvs = []"
        by (simp_all add: kv)
      have "g y = g x'" using m other rest by (rule members_other)
      moreover have "dec u (g x) = Inr (g x')" using s True own by simp
      ultimately show ?thesis by (simp add: uv)
    next
      case False
      with Cons.prems(2) Some
      have rest: "map snd (filter (\<lambda>kv. fld (fst kv) = Some t) kvs) = [v]"
        by (simp add: kv)
      have "dec v (g x') = Inr (g y)" using m rest by (rule Cons.IH)
      moreover have "g x' = g x" using False s by (rule other)
      ultimately show ?thesis by simp
    qed
  qed
qed

lemma struct_one:
  assumes "decode_struct lib tags st (JObject kvs) x = Inr y"
    and "\<And>t' v a b. t' \<noteq> t \<Longrightarrow> st t' v a = Inr b \<Longrightarrow> g b = g a"
    and "\<And>v a b. st t v a = Inr b \<Longrightarrow> dec v (g a) = Inr (g b)"
    and "named lib tags t kvs = [v]"
  shows "dec v (g x) = Inr (g y)"
proof -
  have m: "members (field_of lib tags) st kvs x = Inr y"
    using assms(1) by (simp add: decode_struct_def)
  have n: "map snd (filter (\<lambda>kv. field_of lib tags (fst kv) = Some t) kvs) = [v]"
    using assms(4) by (simp add: named_def)
  from m assms(2,3) n show ?thesis by (rule members_one)
qed


lemma decode_string_JString: "decode_string lib (JString s) old = Inr a \<Longrightarrow> a = s"
  by (simp add: decode_string_def)

lemma sint_word_of_int_32:
  assumes "- (2 ^ 31) \<le> n" and "n < 2 ^ 31"
  shows "sint (word_of_int n :: 32 word) = n"
proof -
  have "(n + 2 ^ 31) mod 2 ^ 32 = n + 2 ^ 31"
    using assms by (intro mod_pos_pos_trivial) simp_all
  then show ?thesis by (simp add: int_word_sint)
qed

lemma decode_int32_JNumber:
  "decode_int32 lib (JNumber lit) old = Inr w \<Longrightarrow> int_of_literal lit = Some (sint w)"
  by (auto simp add: decode_int32_def sint_word_of_int_32 split: option.splits if_splits)

lemma Stat_name:
  assumes "decode_Stat lib (JObject kvs) s0 = Inr s"
    and "named lib Stat_tags ''name'' kvs = [JString a]"
  shows "Stat.Name s = a"
proof -
  have "decode_string lib (JString a) (Stat.Name s0) = Inr (Stat.Name s)"
  proof (rule struct_one [where g = Stat.Name and t = "''name''" and st = "store_Stat lib"])
    show "decode_struct lib Stat_tags (store_Stat lib) (JObject kvs) s0 = Inr s"
      using assms(1) by (simp add: decode_Stat_def)
    show "named lib Stat_tags ''name'' kvs = [JString a]" by (rule assms(2))
  qed (auto simp add: store_Stat_def split: if_splits sum.splits)
  then show ?thesis by (simp add: decode_string_def)
qed

lemma Stat_url:
  assumes "decode_Stat lib (JObject kvs) s0 = Inr s"
    and "named lib Stat_tags ''url'' kvs = [JString a]"
  shows "URL s = a"
proof -
  have "decode_string lib (JString a) (URL s0) = Inr (URL s)"
  proof (rule struct_one [where g = URL and t = "''url''" and st = "store_Stat lib"])
    show "decode_struct lib Stat_tags (store_Stat lib) (JObject kvs) s0 = Inr s"
      using assms(1) by (simp add: decode_Stat_def)
    show "named lib Stat_tags ''url'' kvs = [JString a]" by (rule assms(2))
  qed (auto simp add: store_Stat_def split: if_splits sum.splits)
  then show ?thesis by (simp add: decode_string_def)
qed

lemma StatInfo_base_stat:
  assumes "decode_StatInfo lib (JObject kvs) s0 = Inr s"
    and "named lib StatInfo_tags ''base_stat'' kvs = [JNumber lit]"
  shows "int_of_literal lit = Some (sint (BaseStat s))"
proof -
  have "decode_int32 lib (JNumber lit) (BaseStat s0) = Inr (BaseStat s)"
  proof (rule struct_one [where g = BaseStat and t = "''base_stat''" and st = "store_StatInfo lib"])
    show "decode_struct lib StatInfo_tags (store_StatInfo lib) (JObject kvs) s0 = Inr s"
      using assms(1) by (simp add: decode_StatInfo_def)
    show "named lib StatInfo_tags ''base_stat'' kvs = [JNumber lit]" by (rule assms(2))
  qed (auto simp add: store_StatInfo_def split: if_splits sum.splits)
  then show ?thesis by (rule decode_int32_JNumber)
qed

lemma StatInfo_stat:
  assumes "decode_StatInfo lib (JObject kvs) s0 = Inr s"
    and "named lib StatInfo_tags ''stat'' kvs = [v]"
  shows "decode_Stat lib v (Stat s0) = Inr (Stat s)"
proof (rule struct_one [where g = Stat and t = "''stat''" and st = "store_StatInfo lib"])
  show "decode_struct lib StatInfo_tags (store_StatInfo lib) (JObject kvs) s0 = Inr s"
    using assms(1) by (simp add: decode_StatInfo_def)
  show "named lib StatInfo_tags ''stat'' kvs = [v]" by (rule assms(2))
qed (auto simp add: store_StatInfo_def split: if_splits sum.splits)

lemma Sprites_front:
  assumes "decode_Sprites lib (JObject kvs) s0 = Inr s"
    and "named lib Sprites_tags ''front_default'' kvs = [JString a]"
  shows "FrontDefault s = a"
proof -
  have "decode_string lib (JString a) (FrontDefault s0) = Inr (FrontDefault s)"
  proof (rule struct_one [where g = FrontDefault and t = "''front_default''"
        and st = "store_Sprites lib"])
    show "decode_struct lib Sprites_tags (store_Sprites lib) (JObject kvs) s0 = Inr s"
      using assms(1) by (simp add: decode_Sprites_def)
    show "named lib Sprites_tags ''front_default'' kvs = [JString a]" by (rule assms(2))
  qed (auto simp add: store_Sprites_def split: if_splits sum.splits)
  then show ?thesis by (simp add: decode_string_def)
qed

lemma Sprites_back:
  assumes "decode_Sprites lib (JObject kvs) s0 = Inr s"
    and "named lib Sprites_tags ''back_default'' kvs = [JString a]"
  shows "BackDefault s = a"
proof -
  have "decode_string lib (JString a) (BackDefault s0) = Inr (BackDefault s)"
  proof (rule struct_one [where g = BackDefault and t = "''back_default''"
        and st = "store_Sprites lib"])
    show "decode_struct lib Sprites_tags (store_Sprites lib) (JObject kvs) s0 = Inr s"
      using assms(1) by (simp add: decode_Sprites_def)
    show "named lib Sprites_tags ''back_default'' kvs = [JString a]" by (rule assms(2))
  qed (auto simp add: store_Sprites_def split: if_splits sum.splits)
  then show ?thesis by (simp add: decode_string_def)
qed

lemma elements_fresh:
  assumes "elements lib es [] = Inr xs"
  shows "length xs = length es \<and>
         (\<forall>j < length es. decode_StatInfo lib (es ! j) zero_StatInfo = Inr (xs ! j))"
  using assms
proof (induction es arbitrary: xs)
  case Nil
  then show ?case by simp
next
  case (Cons e es)
  from Cons.prems obtain x ys where x: "decode_StatInfo lib e zero_StatInfo = Inr x"
    and ys: "elements lib es [] = Inr ys" and xs: "xs = x # ys"
    by (auto split: sum.splits)
  from Cons.IH [OF ys] have l: "length ys = length es"
    and a: "\<forall>j < length es. decode_StatInfo lib (es ! j) zero_StatInfo = Inr (ys ! j)"
    by simp_all
  show ?case
  proof (intro conjI allI impI)
    show "length xs = length (e # es)" by (simp add: xs l)
  next
    fix j
    assume "j < length (e # es)"
    then show "decode_StatInfo lib ((e # es) ! j) zero_StatInfo = Inr (xs ! j)"
      using x a by (cases j) (simp_all add: xs)
  qed
qed

lemma StatInfos_fresh:
  assumes "decode_StatInfos lib (JArray es) ([], []) = Inr sl"
  shows "length (fst sl) = length es \<and>
         (\<forall>j < length es. decode_StatInfo lib (es ! j) zero_StatInfo = Inr (fst sl ! j))"
proof (cases "es = []")
  case True
  with assms show ?thesis by (auto simp add: decode_StatInfos_def)
next
  case False
  with assms have "elements lib es [] = Inr (fst sl)"
    by (auto simp add: decode_StatInfos_def split: sum.splits)
  then show ?thesis by (rule elements_fresh)
qed

lemma Pokemon_string:
  assumes "decode_struct lib Pokemon_tags (store_Pokemon lib) (JObject kvs) x = Inr y"
    and "named lib Pokemon_tags ''name'' kvs = [JString a]"
  shows "Pokemon.Name (fst y) = a"
proof -
  have "decode_string lib (JString a) (Pokemon.Name (fst x)) = Inr (Pokemon.Name (fst y))"
  proof (rule struct_one [where g = "\<lambda>ps. Pokemon.Name (fst ps)" and t = "''name''"
        and st = "store_Pokemon lib"])
    show "decode_struct lib Pokemon_tags (store_Pokemon lib) (JObject kvs) x = Inr y"
      by (rule assms(1))
    show "named lib Pokemon_tags ''name'' kvs = [JString a]" by (rule assms(2))
  qed (auto simp add: store_Pokemon_def split: if_splits sum.splits)
  then show ?thesis by (simp add: decode_string_def)
qed

lemma Pokemon_base_experience:
  assumes "decode_struct lib Pokemon_tags (store_Pokemon lib) (JObject kvs) x = Inr y"
    and "named lib Pokemon_tags ''base_experience'' kvs = [JNumber lit]"
  shows "int_of_literal lit = Some (sint (BaseExp (fst y)))"
proof -
  have "decode_int32 lib (JNumber lit) (BaseExp (fst x)) = Inr (BaseExp (fst y))"
  proof (rule struct_one [where g = "\<lambda>ps. BaseExp (fst ps)" and t = "''base_experience''"
        and st = "store_Pokemon lib"])
    show "decode_struct lib Pokemon_tags (store_Pokemon lib) (JObject kvs) x = Inr y"
      by (rule assms(1))
    show "named lib Pokemon_tags ''base_experience'' kvs = [JNumber lit]" by (rule assms(2))
  qed (auto simp add: store_Pokemon_def split: if_splits sum.splits)
  then show ?thesis by (rule decode_int32_JNumber)
qed

lemma Pokemon_height:
  assumes "decode_struct lib Pokemon_tags (store_Pokemon lib) (JObject kvs) x = Inr y"
    and "named lib Pokemon_tags ''height'' kvs = [JNumber lit]"
  shows "int_of_literal lit = Some (sint (Height (fst y)))"
proof -
  have "decode_int32 lib (JNumber lit) (Height (fst x)) = Inr (Height (fst y))"
  proof (rule struct_one [where g = "\<lambda>ps. Height (fst ps)" and t = "''height''"
        and st = "store_Pokemon lib"])
    show "decode_struct lib Pokemon_tags (store_Pokemon lib) (JObject kvs) x = Inr y"
      by (rule assms(1))
    show "named lib Pokemon_tags ''height'' kvs = [JNumber lit]" by (rule assms(2))
  qed (auto simp add: store_Pokemon_def split: if_splits sum.splits)
  then show ?thesis by (rule decode_int32_JNumber)
qed

lemma Pokemon_id:
  assumes "decode_struct lib Pokemon_tags (store_Pokemon lib) (JObject kvs) x = Inr y"
    and "named lib Pokemon_tags ''id'' kvs = [JNumber lit]"
  shows "int_of_literal lit = Some (sint (Id (fst y)))"
proof -
  have "decode_int32 lib (JNumber lit) (Id (fst x)) = Inr (Id (fst y))"
  proof (rule struct_one [where g = "\<lambda>ps. Id (fst ps)" and t = "''id''"
        and st = "store_Pokemon lib"])
    show "decode_struct lib Pokemon_tags (store_Pokemon lib) (JObject kvs) x = Inr y"
      by (rule assms(1))
    show "named lib Pokemon_tags ''id'' kvs = [JNumber lit]" by (rule assms(2))
  qed (auto simp add: store_Pokemon_def split: if_splits sum.splits)
  then show ?thesis by (rule decode_int32_JNumber)
qed

lemma Pokemon_sprites:
  assumes "decode_struct lib Pokemon_tags (store_Pokemon lib) (JObject kvs) x = Inr y"
    and "named lib Pokemon_tags ''sprites'' kvs = [v]"
  shows "decode_Sprites lib v (Sprites (fst x)) = Inr (Sprites (fst y))"
proof (rule struct_one [where g = "\<lambda>ps. Sprites (fst ps)" and t = "''sprites''"
      and st = "store_Pokemon lib"])
  show "decode_struct lib Pokemon_tags (store_Pokemon lib) (JObject kvs) x = Inr y"
    by (rule assms(1))
  show "named lib Pokemon_tags ''sprites'' kvs = [v]" by (rule assms(2))
qed (auto simp add: store_Pokemon_def split: if_splits sum.splits)

lemma Pokemon_stats:
  assumes "decode_struct lib Pokemon_tags (store_Pokemon lib) (JObject kvs) x = Inr y"
    and "named lib Pokemon_tags ''stats'' kvs = [v]"
  shows "decode_StatInfos lib v (StatInfo (fst x), snd x) = Inr (StatInfo (fst y), snd y)"
proof (rule struct_one [where g = "\<lambda>ps. (StatInfo (fst ps), snd ps)" and t = "''stats''"
      and st = "store_Pokemon lib"])
  show "decode_struct lib Pokemon_tags (store_Pokemon lib) (JObject kvs) x = Inr y"
    by (rule assms(1))
  show "named lib Pokemon_tags ''stats'' kvs = [v]" by (rule assms(2))
qed (auto simp add: store_Pokemon_def split: if_splits sum.splits)


lemma json_Unmarshal_object:
  assumes "json_Unmarshal lib body = Inr p" and "scan lib body = Inr (JObject kvs)"
  shows "\<exists>held. decode_struct lib Pokemon_tags (store_Pokemon lib) (JObject kvs) (zero_Pokemon, [])
           = Inr (p, held)"
  using assms by (auto simp add: json_Unmarshal_def split: sum.splits)

lemma zero_fields [simp]:
  "Pokemon.Name zero_Pokemon = []" "BaseExp zero_Pokemon = 0" "Height zero_Pokemon = 0"
  "Id zero_Pokemon = 0" "Sprites zero_Pokemon = zero_Sprites" "StatInfo zero_Pokemon = []"
  "FrontDefault zero_Sprites = []" "BackDefault zero_Sprites = []"
  "Stat zero_StatInfo = zero_Stat" "BaseStat zero_StatInfo = 0"
  by (simp_all add: zero_Pokemon_def zero_Sprites_def zero_StatInfo_def)

lemma wire_keys:
  assumes "unmarshal en = json_Unmarshal lib"
    and "scan lib body = Inr (JObject kvs)"
    and "unmarshal en body = Inr p"
  shows "(named lib Pokemon_tags ''name'' kvs = [JString n] \<longrightarrow> Pokemon.Name p = n) \<and>
       (named lib Pokemon_tags ''base_experience'' kvs = [JNumber b]
          \<longrightarrow> int_of_literal b = Some (sint (BaseExp p))) \<and>
       (named lib Pokemon_tags ''height'' kvs = [JNumber h]
          \<longrightarrow> int_of_literal h = Some (sint (Height p))) \<and>
       (named lib Pokemon_tags ''id'' kvs = [JNumber i]
          \<longrightarrow> int_of_literal i = Some (sint (Id p))) \<and>
       (named lib Pokemon_tags ''sprites'' kvs = [JObject skvs] \<longrightarrow>
          (named lib Sprites_tags ''front_default'' skvs = [JString f]
             \<longrightarrow> FrontDefault (Sprites p) = f) \<and>
          (named lib Sprites_tags ''back_default'' skvs = [JString k]
             \<longrightarrow> BackDefault (Sprites p) = k)) \<and>
       (named lib Pokemon_tags ''stats'' kvs = [JArray es] \<longrightarrow>
          length (StatInfo p) = length es \<and>
          (\<forall>j < length es. \<forall>ekvs. es ! j = JObject ekvs \<longrightarrow>
             (\<forall>lit. named lib StatInfo_tags ''base_stat'' ekvs = [JNumber lit]
                \<longrightarrow> int_of_literal lit = Some (sint (BaseStat (StatInfo p ! j)))) \<and>
             (\<forall>tkvs. named lib StatInfo_tags ''stat'' ekvs = [JObject tkvs] \<longrightarrow>
                (\<forall>a. named lib Stat_tags ''name'' tkvs = [JString a]
                   \<longrightarrow> Stat.Name (Stat (StatInfo p ! j)) = a) \<and>
                (\<forall>u. named lib Stat_tags ''url'' tkvs = [JString u]
                   \<longrightarrow> URL (Stat (StatInfo p ! j)) = u))))"
proof -
  from assms have "json_Unmarshal lib body = Inr p" by simp
  then obtain held where
    d: "decode_struct lib Pokemon_tags (store_Pokemon lib) (JObject kvs) (zero_Pokemon, [])
          = Inr (p, held)"
    using assms(2) json_Unmarshal_object by blast
  have 1: "named lib Pokemon_tags ''name'' kvs = [JString n] \<longrightarrow> Pokemon.Name p = n"
    using Pokemon_string [OF d] by simp
  have 2: "named lib Pokemon_tags ''base_experience'' kvs = [JNumber b]
          \<longrightarrow> int_of_literal b = Some (sint (BaseExp p))"
    using Pokemon_base_experience [OF d] by simp
  have 3: "named lib Pokemon_tags ''height'' kvs = [JNumber h]
          \<longrightarrow> int_of_literal h = Some (sint (Height p))"
    using Pokemon_height [OF d] by simp
  have 4: "named lib Pokemon_tags ''id'' kvs = [JNumber i]
          \<longrightarrow> int_of_literal i = Some (sint (Id p))"
    using Pokemon_id [OF d] by simp
  have 5: "named lib Pokemon_tags ''sprites'' kvs = [JObject skvs] \<longrightarrow>
          (named lib Sprites_tags ''front_default'' skvs = [JString f]
             \<longrightarrow> FrontDefault (Sprites p) = f) \<and>
          (named lib Sprites_tags ''back_default'' skvs = [JString k]
             \<longrightarrow> BackDefault (Sprites p) = k)"
  proof
    assume "named lib Pokemon_tags ''sprites'' kvs = [JObject skvs]"
    from Pokemon_sprites [OF d this]
    have s: "decode_Sprites lib (JObject skvs) zero_Sprites = Inr (Sprites p)" by simp
    show "(named lib Sprites_tags ''front_default'' skvs = [JString f]
             \<longrightarrow> FrontDefault (Sprites p) = f) \<and>
          (named lib Sprites_tags ''back_default'' skvs = [JString k]
             \<longrightarrow> BackDefault (Sprites p) = k)"
      using Sprites_front [OF s] Sprites_back [OF s] by blast
  qed
  have 6: "named lib Pokemon_tags ''stats'' kvs = [JArray es] \<longrightarrow>
          length (StatInfo p) = length es \<and>
          (\<forall>j < length es. \<forall>ekvs. es ! j = JObject ekvs \<longrightarrow>
             (\<forall>lit. named lib StatInfo_tags ''base_stat'' ekvs = [JNumber lit]
                \<longrightarrow> int_of_literal lit = Some (sint (BaseStat (StatInfo p ! j)))) \<and>
             (\<forall>tkvs. named lib StatInfo_tags ''stat'' ekvs = [JObject tkvs] \<longrightarrow>
                (\<forall>a. named lib Stat_tags ''name'' tkvs = [JString a]
                   \<longrightarrow> Stat.Name (Stat (StatInfo p ! j)) = a) \<and>
                (\<forall>u. named lib Stat_tags ''url'' tkvs = [JString u]
                   \<longrightarrow> URL (Stat (StatInfo p ! j)) = u)))"
  proof
    assume "named lib Pokemon_tags ''stats'' kvs = [JArray es]"
    from Pokemon_stats [OF d this]
    have "decode_StatInfos lib (JArray es) ([], []) = Inr (StatInfo p, held)" by simp
    from StatInfos_fresh [OF this]
    have l: "length (StatInfo p) = length es"
      and e: "\<And>j. j < length es
                \<Longrightarrow> decode_StatInfo lib (es ! j) zero_StatInfo = Inr (StatInfo p ! j)"
      by simp_all
    have "(\<forall>lit. named lib StatInfo_tags ''base_stat'' ekvs = [JNumber lit]
                \<longrightarrow> int_of_literal lit = Some (sint (BaseStat (StatInfo p ! j)))) \<and>
             (\<forall>tkvs. named lib StatInfo_tags ''stat'' ekvs = [JObject tkvs] \<longrightarrow>
                (\<forall>a. named lib Stat_tags ''name'' tkvs = [JString a]
                   \<longrightarrow> Stat.Name (Stat (StatInfo p ! j)) = a) \<and>
                (\<forall>u. named lib Stat_tags ''url'' tkvs = [JString u]
                   \<longrightarrow> URL (Stat (StatInfo p ! j)) = u))"
      if j: "j < length es" and o: "es ! j = JObject ekvs" for j ekvs
    proof -
      have x: "decode_StatInfo lib (JObject ekvs) zero_StatInfo = Inr (StatInfo p ! j)"
        using e [OF j] o by simp
      have n: "Stat.Name (Stat (StatInfo p ! j)) = a"
        if t: "named lib StatInfo_tags ''stat'' ekvs = [JObject tkvs]"
          and a: "named lib Stat_tags ''name'' tkvs = [JString a]" for tkvs a
        using Stat_name [OF StatInfo_stat [OF x t] a] .
      have u: "URL (Stat (StatInfo p ! j)) = u"
        if t: "named lib StatInfo_tags ''stat'' ekvs = [JObject tkvs]"
          and a: "named lib Stat_tags ''url'' tkvs = [JString u]" for tkvs u
        using Stat_url [OF StatInfo_stat [OF x t] a] .
      show ?thesis using StatInfo_base_stat [OF x] n u by blast
    qed
    with l show "length (StatInfo p) = length es \<and>
          (\<forall>j < length es. \<forall>ekvs. es ! j = JObject ekvs \<longrightarrow>
             (\<forall>lit. named lib StatInfo_tags ''base_stat'' ekvs = [JNumber lit]
                \<longrightarrow> int_of_literal lit = Some (sint (BaseStat (StatInfo p ! j)))) \<and>
             (\<forall>tkvs. named lib StatInfo_tags ''stat'' ekvs = [JObject tkvs] \<longrightarrow>
                (\<forall>a. named lib Stat_tags ''name'' tkvs = [JString a]
                   \<longrightarrow> Stat.Name (Stat (StatInfo p ! j)) = a) \<and>
                (\<forall>u. named lib Stat_tags ''url'' tkvs = [JString u]
                   \<longrightarrow> URL (Stat (StatInfo p ! j)) = u)))"
      by blast
  qed
  from 1 2 3 4 5 6 show ?thesis by blast
qed

lemma lib_wire_fields [simp]:
  "scan lib_wire = scan_wire" "foldName lib_wire = fold_id" "typeError lib_wire = type_error"
  by (simp_all add: lib_wire_def)

lemma env_wire_fields [simp]:
  "httpGet env_wire = get_wire" "unmarshal env_wire = json_Unmarshal lib_wire"
  "filepathJoin env_wire = join_cwd" "osCreate env_wire = create_ok"
  "fileWrite env_wire = write_ok"
  by (simp_all add: env_wire_def env_ok_def)

lemma field_of_fold_id:
  "field_of lib_wire tags key = (if key \<in> set tags then Some key else None)"
  by (induction tags) (auto simp add: field_of_def)

lemma int_literals:
  "int_of_literal ''64'' = Some 64" "int_of_literal ''7'' = Some 7"
  "int_of_literal ''1'' = Some 1" "int_of_literal ''45'' = Some 45"
  by (simp_all add: int_of_literal_def)

lemma wire_stat:
  "decode_StatInfo lib_wire (JObject wire_stats) zero_StatInfo
     = Inr \<lparr>Stat = \<lparr>Stat.Name = ''hp'', URL = ''https://pokeapi.co/api/v2/stat/1/''\<rparr>,
            BaseStat = 45\<rparr>"
  by (simp add: decode_StatInfo_def decode_struct_def wire_stats_def field_of_fold_id
        StatInfo_tags_def store_StatInfo_def decode_int32_def int_literals decode_Stat_def
        Stat_tags_def store_Stat_def decode_string_def zero_StatInfo_def zero_Stat_def)

lemma wire_sprites_decoded:
  "decode_Sprites lib_wire (JObject wire_sprites) zero_Sprites = Inr (Sprites bulbasaur)"
  by (simp add: decode_Sprites_def decode_struct_def wire_sprites_def field_of_fold_id
        Sprites_tags_def store_Sprites_def decode_string_def zero_Sprites_def bulbasaur_def)

lemma wire_decoded: "json_Unmarshal lib_wire page_wire = Inr bulbasaur"
  by (simp add: json_Unmarshal_def decode_struct_def wire_def field_of_fold_id
        Pokemon_tags_def store_Pokemon_def decode_int32_def int_literals decode_string_def
        wire_sprites_decoded decode_StatInfos_def wire_stat)
     (simp add: bulbasaur_def zero_Pokemon_def)

text \<open>
  C7. When the fetch succeeds and \<open>json.Unmarshal\<close> fills the struct \<open>p\<close>, the console
  lines of the run are the six field lines, carrying the fields \<open>Name\<close>, \<open>BaseExp\<close>,
  \<open>Height\<close>, \<open>Id\<close>, \<open>Sprites\<close> and \<open>StatInfo\<close> of \<open>p\<close> unchanged and in this order,
  followed by at most one status line of each sprite block. When the body is a JSON
  object, each field comes from the member under its own key of lines 13 to 35. Where
  exactly one member of the object names the key: \<open>Name\<close> is the string under \<open>name\<close>;
  \<open>BaseExp\<close>, \<open>Height\<close> and \<open>Id\<close> are the integers under \<open>base_experience\<close>, \<open>height\<close>
  and \<open>id\<close>; the two sprite URLs are the strings under \<open>front_default\<close> and
  \<open>back_default\<close> of the object under \<open>sprites\<close>; the stat list has one element for each
  element of the array under \<open>stats\<close>, whose \<open>BaseStat\<close> is the integer under \<open>base_stat\<close>
  and whose \<open>Stat\<close> has the strings under \<open>name\<close> and \<open>url\<close> of the object under \<open>stat\<close>.
\<close>

theorem prints_selected_fields:
  assumes "httpGet en 0 url = Response 200 (ReadOK body)" and "unmarshal en body = Inr p"
  shows "main en fs = Some (after_back en fs p) \<and>
     printlns (trace (after_back en fs p)) =
       [(''Pokemon Name:'', PString (Pokemon.Name p)),
        (''Pokemon BaseExp:'', PInt32 (BaseExp p)),
        (''Pokemon Height:'', PInt32 (Height p)),
        (''Pokemon Id:'', PInt32 (Id p)),
        (''Pokemon Sprites:'', PSprites (Sprites p)),
        (''Pokemon Abilities:'', PStats (StatInfo p))] @
       printlns (front_events en fs p) @ printlns (back_events en fs p) \<and>
     length (printlns (front_events en fs p)) \<le> 1 \<and>
     fst ` set (printlns (front_events en fs p))
       \<subseteq> {''Error downloading front sprite:'', ''Error saving front sprite:'',
           ''Front sprite saved as:''} \<and>
     length (printlns (back_events en fs p)) \<le> 1 \<and>
     fst ` set (printlns (back_events en fs p))
       \<subseteq> {''Error downloading back sprite:'', ''Error saving back sprite:'',
           ''Back sprite saved as:''} \<and>
     (unmarshal en = json_Unmarshal lib \<and> scan lib body = Inr (JObject kvs) \<longrightarrow>
       (named lib Pokemon_tags ''name'' kvs = [JString n] \<longrightarrow> Pokemon.Name p = n) \<and>
       (named lib Pokemon_tags ''base_experience'' kvs = [JNumber b]
          \<longrightarrow> int_of_literal b = Some (sint (BaseExp p))) \<and>
       (named lib Pokemon_tags ''height'' kvs = [JNumber h]
          \<longrightarrow> int_of_literal h = Some (sint (Height p))) \<and>
       (named lib Pokemon_tags ''id'' kvs = [JNumber i]
          \<longrightarrow> int_of_literal i = Some (sint (Id p))) \<and>
       (named lib Pokemon_tags ''sprites'' kvs = [JObject skvs] \<longrightarrow>
          (named lib Sprites_tags ''front_default'' skvs = [JString f]
             \<longrightarrow> FrontDefault (Sprites p) = f) \<and>
          (named lib Sprites_tags ''back_default'' skvs = [JString k]
             \<longrightarrow> BackDefault (Sprites p) = k)) \<and>
       (named lib Pokemon_tags ''stats'' kvs = [JArray es] \<longrightarrow>
          length (StatInfo p) = length es \<and>
          (\<forall>j < length es. \<forall>ekvs. es ! j = JObject ekvs \<longrightarrow>
             (\<forall>lit. named lib StatInfo_tags ''base_stat'' ekvs = [JNumber lit]
                \<longrightarrow> int_of_literal lit = Some (sint (BaseStat (StatInfo p ! j)))) \<and>
             (\<forall>tkvs. named lib StatInfo_tags ''stat'' ekvs = [JObject tkvs] \<longrightarrow>
                (\<forall>a. named lib Stat_tags ''name'' tkvs = [JString a]
                   \<longrightarrow> Stat.Name (Stat (StatInfo p ! j)) = a) \<and>
                (\<forall>u. named lib Stat_tags ''url'' tkvs = [JString u]
                   \<longrightarrow> URL (Stat (StatInfo p ! j)) = u)))))"
proof -
  have pj: "parseJSON en body = Inr p" using assms(2) by (simp add: parseJSON_def)
  have m: "main en fs = Some (after_back en fs p)" using assms(1) pj by (rule main_decoded)
  have t: "printlns (trace (after_back en fs p)) =
       [(''Pokemon Name:'', PString (Pokemon.Name p)),
        (''Pokemon BaseExp:'', PInt32 (BaseExp p)),
        (''Pokemon Height:'', PInt32 (Height p)),
        (''Pokemon Id:'', PInt32 (Id p)),
        (''Pokemon Sprites:'', PSprites (Sprites p)),
        (''Pokemon Abilities:'', PStats (StatInfo p))] @
       printlns (front_events en fs p) @ printlns (back_events en fs p)"
    by (simp add: after_back_trace after_front_trace after_print_trace)
  note pf = printlns_front [of en fs p] and pb = printlns_back [of en fs p]
  show ?thesis
    apply (intro conjI)
    subgoal by (rule m)
    subgoal by (rule t)
    subgoal using pf by (rule conjunct1)
    subgoal using pf by (rule conjunct2)
    subgoal using pb by (rule conjunct1)
    subgoal using pb by (rule conjunct2)
    subgoal by (intro impI, elim conjE, rule wire_keys [OF _ _ assms(2)], assumption+)
    done
qed

theorem prints_selected_fields_witness:
  "httpGet env_wire 0 url = Response 200 (ReadOK page_wire) \<and>
   unmarshal env_wire page_wire = Inr bulbasaur \<and>
   unmarshal env_wire = json_Unmarshal lib_wire \<and>
   scan lib_wire page_wire = Inr (JObject wire) \<and>
   named lib_wire Pokemon_tags ''name'' wire = [JString ''bulbasaur''] \<and>
   named lib_wire Pokemon_tags ''base_experience'' wire = [JNumber ''64''] \<and>
   named lib_wire Pokemon_tags ''height'' wire = [JNumber ''7''] \<and>
   named lib_wire Pokemon_tags ''id'' wire = [JNumber ''1''] \<and>
   named lib_wire Pokemon_tags ''sprites'' wire = [JObject wire_sprites] \<and>
   named lib_wire Sprites_tags ''front_default'' wire_sprites
     = [JString ''https://img.example/1.png''] \<and>
   named lib_wire Sprites_tags ''back_default'' wire_sprites
     = [JString ''https://img.example/back/1.png''] \<and>
   named lib_wire Pokemon_tags ''stats'' wire = [JArray [JObject wire_stats]] \<and>
   named lib_wire StatInfo_tags ''base_stat'' wire_stats = [JNumber ''45''] \<and>
   named lib_wire StatInfo_tags ''stat'' wire_stats
     = [JObject [(''name'', JString ''hp''),
                 (''url'', JString ''https://pokeapi.co/api/v2/stat/1/'')]] \<and>
   named lib_wire Stat_tags ''name''
     [(''name'', JString ''hp''), (''url'', JString ''https://pokeapi.co/api/v2/stat/1/'')]
     = [JString ''hp''] \<and>
   Pokemon.Name bulbasaur = ''bulbasaur'' \<and>
   int_of_literal ''64'' = Some (sint (BaseExp bulbasaur)) \<and>
   int_of_literal ''7'' = Some (sint (Height bulbasaur)) \<and>
   int_of_literal ''1'' = Some (sint (Id bulbasaur)) \<and>
   FrontDefault (Sprites bulbasaur) = ''https://img.example/1.png'' \<and>
   BackDefault (Sprites bulbasaur) = ''https://img.example/back/1.png'' \<and>
   length (StatInfo bulbasaur) = length [JObject wire_stats] \<and>
   int_of_literal ''45'' = Some (sint (BaseStat (StatInfo bulbasaur ! 0))) \<and>
   Stat.Name (Stat (StatInfo bulbasaur ! 0)) = ''hp'' \<and>
   main env_wire Map.empty = Some (after_back env_wire Map.empty bulbasaur) \<and>
   take 6 (printlns (trace (after_back env_wire Map.empty bulbasaur))) =
     [(''Pokemon Name:'', PString ''bulbasaur''),
      (''Pokemon BaseExp:'', PInt32 64),
      (''Pokemon Height:'', PInt32 7),
      (''Pokemon Id:'', PInt32 1),
      (''Pokemon Sprites:'', PSprites (Sprites bulbasaur)),
      (''Pokemon Abilities:'', PStats (StatInfo bulbasaur))]"
proof -
  have g: "httpGet env_wire 0 url = Response 200 (ReadOK page_wire)" by simp
  have u: "unmarshal env_wire page_wire = Inr bulbasaur" by (simp add: wire_decoded)
  have l: "unmarshal env_wire = json_Unmarshal lib_wire" by simp
  have s: "scan lib_wire page_wire = Inr (JObject wire)" by simp
  have n: "named lib_wire Pokemon_tags ''name'' wire = [JString ''bulbasaur'']"
    "named lib_wire Pokemon_tags ''base_experience'' wire = [JNumber ''64'']"
    "named lib_wire Pokemon_tags ''height'' wire = [JNumber ''7'']"
    "named lib_wire Pokemon_tags ''id'' wire = [JNumber ''1'']"
    "named lib_wire Pokemon_tags ''sprites'' wire = [JObject wire_sprites]"
    "named lib_wire Pokemon_tags ''stats'' wire = [JArray [JObject wire_stats]]"
    by (simp_all add: named_def wire_def field_of_fold_id Pokemon_tags_def)
  have ns: "named lib_wire Sprites_tags ''front_default'' wire_sprites
     = [JString ''https://img.example/1.png'']"
    "named lib_wire Sprites_tags ''back_default'' wire_sprites
     = [JString ''https://img.example/back/1.png'']"
    by (simp_all add: named_def wire_sprites_def field_of_fold_id Sprites_tags_def)
  have nt: "named lib_wire StatInfo_tags ''base_stat'' wire_stats = [JNumber ''45'']"
    "named lib_wire StatInfo_tags ''stat'' wire_stats
     = [JObject [(''name'', JString ''hp''),
                 (''url'', JString ''https://pokeapi.co/api/v2/stat/1/'')]]"
    by (simp_all add: named_def wire_stats_def field_of_fold_id StatInfo_tags_def)
  have nn: "named lib_wire Stat_tags ''name''
     [(''name'', JString ''hp''), (''url'', JString ''https://pokeapi.co/api/v2/stat/1/'')]
     = [JString ''hp'']"
    by (simp add: named_def field_of_fold_id Stat_tags_def)
  have v: "BaseExp bulbasaur = 64" "Height bulbasaur = 7" "Id bulbasaur = 1"
    by (simp_all add: bulbasaur_def)
  note t = prints_selected_fields [OF g u, of Map.empty lib_wire wire "''bulbasaur''" "''64''"
      "''7''" "''1''" wire_sprites "''https://img.example/1.png''"
      "''https://img.example/back/1.png''" "[JObject wire_stats]"]
  note c2 = conjunct2
  note K = t [THEN c2, THEN c2, THEN c2, THEN c2, THEN c2, THEN c2, THEN mp, OF conjI [OF l s]]
  note k1 = K [THEN conjunct1, THEN mp, OF n(1)]
  note k2 = K [THEN c2, THEN conjunct1, THEN mp, OF n(2)]
  note k3 = K [THEN c2, THEN c2, THEN conjunct1, THEN mp, OF n(3)]
  note k4 = K [THEN c2, THEN c2, THEN c2, THEN conjunct1, THEN mp, OF n(4)]
  note k5 = K [THEN c2, THEN c2, THEN c2, THEN c2, THEN conjunct1, THEN mp, OF n(5)]
  note k6 = K [THEN c2, THEN c2, THEN c2, THEN c2, THEN c2, THEN mp, OF n(6)]
  note k5f = k5 [THEN conjunct1, THEN mp, OF ns(1)]
  note k5b = k5 [THEN c2, THEN mp, OF ns(2)]
  note k6l = k6 [THEN conjunct1]
  have z: "0 < length [JObject wire_stats]" by simp
  have o: "[JObject wire_stats] ! 0 = JObject wire_stats" by simp
  note k6e = k6 [THEN c2, THEN spec, THEN mp, OF z, THEN spec, THEN mp, OF o]
  note k6b = k6e [THEN conjunct1, THEN spec, THEN mp, OF nt(1)]
  note k6s = k6e [THEN c2, THEN spec, THEN mp, OF nt(2)]
  note k6n = k6s [THEN conjunct1, THEN spec, THEN mp, OF nn]
  note top = k1 k2 k3 k4 k5f k5b k6l
  note el = k6b k6n
  have m: "main env_wire Map.empty = Some (after_back env_wire Map.empty bulbasaur)"
    by (rule t [THEN conjunct1])
  have r: "take 6 (printlns (trace (after_back env_wire Map.empty bulbasaur))) =
     [(''Pokemon Name:'', PString ''bulbasaur''),
      (''Pokemon BaseExp:'', PInt32 64),
      (''Pokemon Height:'', PInt32 7),
      (''Pokemon Id:'', PInt32 1),
      (''Pokemon Sprites:'', PSprites (Sprites bulbasaur)),
      (''Pokemon Abilities:'', PStats (StatInfo bulbasaur))]"
    using t [THEN c2, THEN conjunct1] by (simp add: v)
  show ?thesis
    by (intro conjI) (rule g u l s n ns nt nn top el m r)+
qed

subsection \<open>The goroutines\<close>

lemma fetchData_single: "\<exists>s. fst (fetchData en u w) = [s]"
  by (simp add: fetchData_sends split: http_result.splits read_result.splits)

lemma main_receives:
  assumes "fst (fetchData en url (start fs)) = [s]"
  shows "main en fs = Some (select_body en (recv_of s) (after_fetch en fs))"
proof -
  obtain ss w where f: "fetchData en url (start fs) = (ss, w)"
    by (cases "fetchData en url (start fs)")
  with assms have "ss = [s]" and "w = after_fetch en fs" by (simp_all add: after_fetch_def)
  then show ?thesis by (simp add: main_def f)
qed

lemma fetchData_pair:
  assumes "fst (fetchData en url (start fs)) = [s]"
  shows "fetchData en url (start fs) = ([s], after_fetch en fs)"
  using assms by (simp add: after_fetch_def prod_eq_iff)

lemma steps_init:
  assumes "fst (fetchData en url (start fs)) = [s]"
  shows "steps en (init fs)
           = [(init fs)\<lparr>fetcher := FSending [s], outside := after_fetch en fs\<rparr>]"
  using fetchData_pair [OF assms]
  by (simp add: steps_def fetcher_steps_def closer_steps_def caller_steps_def init_def)

lemma steps_sending:
  "steps en ((init fs)\<lparr>fetcher := FSending [s], outside := w\<rparr>)
     = [(init fs)\<lparr>fetcher := FSending [], caller := MReceived (recv_of s), outside := w\<rparr>]"
  by (cases s)
     (simp_all add: steps_def fetcher_steps_def closer_steps_def caller_steps_def init_def)

lemma steps_received:
  assumes "c' \<in> set (steps en c)"
    and "fetcher c = FSending [] \<or> fetcher c = FExit"
    and "caller c = MReceived m"
  shows "(fetcher c' = FSending [] \<or> fetcher c' = FExit) \<and>
         ((caller c' = MReceived m \<and> outside c' = outside c) \<or>
          (caller c' = MExit \<and> outside c' = select_body en m (outside c)))"
  using assms
  by (auto simp add: steps_def fetcher_steps_def closer_steps_def caller_steps_def
        split: closer.splits if_splits)

lemma steps_exit: "caller c = MExit \<Longrightarrow> steps en c = []"
  by (simp add: steps_def)

lemma after_steps_cases:
  assumes s: "fst (fetchData en url (start fs)) = [s]"
    and c: "c \<in> set (after_steps en fs n)"
  shows "(n = 0 \<and> c = init fs) \<or>
    (n = 1 \<and> c = (init fs)\<lparr>fetcher := FSending [s], outside := after_fetch en fs\<rparr>) \<or>
    (2 \<le> n \<and> (fetcher c = FSending [] \<or> fetcher c = FExit) \<and>
       ((caller c = MReceived (recv_of s) \<and> outside c = after_fetch en fs) \<or>
        (caller c = MExit \<and> outside c = select_body en (recv_of s) (after_fetch en fs))))"
  using c
proof (induction n arbitrary: c)
  case 0
  then show ?case by simp
next
  case (Suc n)
  then obtain c0 where c0: "c0 \<in> set (after_steps en fs n)" and st: "c \<in> set (steps en c0)"
    by auto
  from Suc.IH [OF c0]
  consider "n = 0" "c0 = init fs"
    | "n = 1" "c0 = (init fs)\<lparr>fetcher := FSending [s], outside := after_fetch en fs\<rparr>"
    | "2 \<le> n" "fetcher c0 = FSending [] \<or> fetcher c0 = FExit"
        "caller c0 = MReceived (recv_of s)" "outside c0 = after_fetch en fs"
    | "caller c0 = MExit"
    by blast
  then show ?case
  proof cases
    case 1
    then show ?thesis using st by (simp add: steps_init [OF s])
  next
    case 2
    then show ?thesis using st by (simp add: steps_sending)
  next
    case 3
    then show ?thesis using steps_received [OF st 3(2) 3(3)] by auto
  next
    case 4
    then show ?thesis using st by (simp add: steps_exit)
  qed
qed

lemma after_steps_two:
  assumes "fst (fetchData en url (start fs)) = [s]"
  shows "after_steps en fs 2
    = [(init fs)\<lparr>fetcher := FSending [], caller := MReceived (recv_of s),
                 outside := after_fetch en fs\<rparr>]"
proof -
  have e: "(2::nat) = Suc (Suc 0)" by simp
  show ?thesis
    unfolding e after_steps.simps
    by (simp add: steps_init [OF assms] steps_sending)
qed

lemma steps_enabled:
  assumes s: "fst (fetchData en url (start fs)) = [s]"
    and c: "c \<in> set (after_steps en fs n)"
    and m: "caller c \<noteq> MExit"
  shows "steps en c \<noteq> []"
proof -
  from after_steps_cases [OF s c] m
  consider "c = init fs"
    | "c = (init fs)\<lparr>fetcher := FSending [s], outside := after_fetch en fs\<rparr>"
    | "caller c = MReceived (recv_of s)"
    by blast
  then show ?thesis
  proof cases
    case 1
    then show ?thesis by (simp add: steps_init [OF s])
  next
    case 2
    then show ?thesis by (simp add: steps_sending)
  next
    case 3
    then show ?thesis by (simp add: steps_def caller_steps_def)
  qed
qed

lemma init_outside: "outside (init fs) = start fs"
  by (simp add: init_def)

text \<open>
  C8. The call of \<open>fetchData\<close> sends exactly one signal \<open>s\<close>. Under every schedule of the
  three goroutines nothing panics. Before the first step nothing has left the process;
  the first step is the first goroutine running \<open>fetchData\<close>, and from then until the
  caller runs its case of the \<open>select\<close> the trace is exactly the one GET of the fixed URL
  that \<open>fetchData\<close> issued. During the first two steps the caller stays in the \<open>select\<close>
  with both channels open; a second step exists, and from it on the caller has received
  \<open>s\<close> and nothing else. While \<open>main\<close> has not returned some goroutine can take a step, and
  when it has returned the world is the result of \<open>main\<close>.
\<close>

theorem one_fetcher_one_signal:
  "\<exists>s. fst (fetchData en url (start fs)) = [s] \<and>
     after_steps en fs 2 \<noteq> [] \<and>
     (\<forall>n. \<forall>c \<in> set (after_steps en fs n).
        fetcher c \<noteq> FPanic \<and>
        (n < 2 \<longrightarrow> caller c = MSelect \<and> \<not> resultClosed c \<and> \<not> errorClosed c) \<and>
        (n = 0 \<longrightarrow> trace (outside c) = []) \<and>
        (0 < n \<and> caller c \<noteq> MExit \<longrightarrow> trace (outside c) = [HttpGet url]) \<and>
        (2 \<le> n \<longrightarrow> caller c = MReceived (recv_of s) \<or> caller c = MExit) \<and>
        (caller c \<noteq> MExit \<longrightarrow> steps en c \<noteq> []) \<and>
        (caller c = MExit \<longrightarrow> main en fs = Some (outside c))) \<and>
     main en fs = Some (select_body en (recv_of s) (after_fetch en fs))"
proof -
  obtain s where s: "fst (fetchData en url (start fs)) = [s]"
    using fetchData_single [of en url "start fs"] by blast
  have m: "main en fs = Some (select_body en (recv_of s) (after_fetch en fs))"
    using s by (rule main_receives)
  have a: "after_steps en fs 2 \<noteq> []" by (simp add: after_steps_two [OF s])
  show ?thesis
  proof (intro exI [of _ s] conjI allI ballI)
    show "fst (fetchData en url (start fs)) = [s]" by (rule s)
    show "after_steps en fs 2 \<noteq> []" by (rule a)
    show "main en fs = Some (select_body en (recv_of s) (after_fetch en fs))" by (rule m)
  next
    fix n c
    assume c: "c \<in> set (after_steps en fs n)"
    note i = after_steps_cases [OF s c]
    show "fetcher c \<noteq> FPanic" using i by (auto simp add: init_def)
    show "n < 2 \<longrightarrow> caller c = MSelect \<and> \<not> resultClosed c \<and> \<not> errorClosed c"
      using i by (auto simp add: init_def)
    show "n = 0 \<longrightarrow> trace (outside c) = []" using i by (auto simp add: init_def)
    show "0 < n \<and> caller c \<noteq> MExit \<longrightarrow> trace (outside c) = [HttpGet url]"
      using i by auto
    show "2 \<le> n \<longrightarrow> caller c = MReceived (recv_of s) \<or> caller c = MExit"
      using i by auto
    show "caller c \<noteq> MExit \<longrightarrow> steps en c \<noteq> []"
      using steps_enabled [OF s c] by blast
    show "caller c = MExit \<longrightarrow> main en fs = Some (outside c)"
      using i m by (auto simp add: init_def)
  qed
qed

theorem one_fetcher_one_signal_witness:
  "fst (fetchData env_ok url (start Map.empty)) = [ResultSend page] \<and>
   after_steps env_ok Map.empty 0 = [init Map.empty] \<and>
   trace (outside (init Map.empty)) = [] \<and>
   after_steps env_ok Map.empty 1
     = [(init Map.empty)\<lparr>fetcher := FSending [ResultSend page],
                          outside := after_fetch env_ok Map.empty\<rparr>] \<and>
   trace (after_fetch env_ok Map.empty) = [HttpGet url] \<and>
   after_steps env_ok Map.empty 2
     = [(init Map.empty)\<lparr>fetcher := FSending [], caller := MReceived (RecvResult page),
                          outside := after_fetch env_ok Map.empty\<rparr>] \<and>
   main env_ok Map.empty
     = Some (select_body env_ok (RecvResult page) (after_fetch env_ok Map.empty))"
proof -
  have f: "fst (fetchData env_ok url (start Map.empty)) = [ResultSend page]"
    by (simp add: fetchData_sends)
  from one_fetcher_one_signal [of env_ok Map.empty]
  obtain s where s: "fst (fetchData env_ok url (start Map.empty)) = [s]"
    and m: "main env_ok Map.empty
              = Some (select_body env_ok (recv_of s) (after_fetch env_ok Map.empty))"
    by blast
  from f s have e: "s = ResultSend page" by simp
  from f m e show ?thesis
    by (simp add: steps_init [OF f] after_steps_two [OF f] init_outside)
qed

subsection \<open>No schema\<close>





lemma env_braces_fields [simp]:
  "httpGet env_braces = get_ok" "unmarshal env_braces = json_Unmarshal lib_braces"
  by (simp_all add: env_braces_def env_ok_def)

lemma env_name5_fields [simp]:
  "unmarshal env_name5 = json_Unmarshal lib_name5"
  by (simp_all add: env_name5_def env_ok_def)

lemma env_other_fields [simp]:
  "httpGet env_other = get_other" "unmarshal env_other = json_Unmarshal lib_other"
  by (simp_all add: env_other_def env_ok_def)





end
